theory Spec2Isabelle
  imports Complex_Main "HOL-Library.Multiset" "HOL-Library.Sublist" "HOL-Library.Product_Lexorder"
begin

section \<open>JavaScript values used by the voucher pages\<close>

text \<open>
  A JavaScript \<open>number\<close>: a finite value, one of the two infinities, or \<open>NaN\<close>. A
  finite value is carried as a real; addition and subtraction round their exact result to
  the nearest binary64 value, ties to even, as the runtime does (\<open>fl64\<close> below).
  Comparisons, \<open>Math.min\<close> and \<open>Math.max\<close> are exact. Negative zero is not modelled.
\<close>

datatype jsnum = Fin real | PInf | NInf | NaN

subsection \<open>Rounding to binary64\<close>

text \<open>\<open>bits n\<close> is the length of \<open>n\<close> in binary: 0 for 0, and k when 2^(k-1) \<le> n < 2^k.\<close>

fun bits :: "nat \<Rightarrow> nat" where
  "bits n = (if n = 0 then 0 else Suc (bits (n div 2)))"

declare bits.simps [simp del]

text \<open>For \<open>a > 0\<close>, \<open>exponent a\<close> is the integer \<open>p\<close> with 2^p \<le> a < 2^(p+1).\<close>

definition exponent :: "real \<Rightarrow> int" where
  "exponent a =
     (if 1 \<le> a then int (bits (nat \<lfloor>a\<rfloor>)) - 1 else - int (bits (nat (\<lceil>1 / a\<rceil> - 1))))"

definition pow2 :: "int \<Rightarrow> real" where
  "pow2 e = (if 0 \<le> e then 2 ^ nat e else 1 / 2 ^ nat (- e))"

definition round_half_even :: "real \<Rightarrow> int" where
  "round_half_even t =
     (let f = \<lfloor>t\<rfloor>; d = t - of_int f
      in if d < 1 / 2 then f else if 1 / 2 < d then f + 1 else if even f then f else f + 1)"

text \<open>
  The binary64 value nearest to a real \<open>x\<close>. The significand has 53 bits, so the unit
  in the last place is 2^e with \<open>e = exponent - 52\<close>, and not below 2^(-1074) (the
  subnormal range); \<open>x\<close> is rounded to a multiple \<open>m\<close> of that unit, a tie going to
  the even \<open>m\<close>. A result of magnitude 2^1024 or more is an infinity.
\<close>

definition fl64 :: "real \<Rightarrow> jsnum" where
  "fl64 x =
     (if x = 0 then Fin 0
      else
        let a = \<bar>x\<bar>;
            e = max (exponent a - 52) (- 1074);
            m = round_half_even (a / pow2 e);
            y = of_int m * pow2 e
        in if pow2 1024 \<le> y then (if 0 < x then PInf else NInf)
           else Fin (if 0 < x then y else - y))"

subsection \<open>Operators\<close>

fun isFinite :: "jsnum \<Rightarrow> bool" where
  "isFinite (Fin _) = True"
| "isFinite _ = False"

fun js_neg :: "jsnum \<Rightarrow> jsnum" where
  "js_neg (Fin a) = Fin (- a)"
| "js_neg PInf = NInf"
| "js_neg NInf = PInf"
| "js_neg NaN = NaN"

fun js_add :: "jsnum \<Rightarrow> jsnum \<Rightarrow> jsnum" where
  "js_add NaN _ = NaN"
| "js_add _ NaN = NaN"
| "js_add (Fin a) (Fin b) = fl64 (a + b)"
| "js_add PInf NInf = NaN"
| "js_add NInf PInf = NaN"
| "js_add PInf _ = PInf"
| "js_add _ PInf = PInf"
| "js_add NInf _ = NInf"
| "js_add _ NInf = NInf"

definition js_sub :: "jsnum \<Rightarrow> jsnum \<Rightarrow> jsnum" where
  "js_sub a b = js_add a (js_neg b)"

text \<open>The relational operators: every comparison with \<open>NaN\<close> is false.\<close>

fun js_lt :: "jsnum \<Rightarrow> jsnum \<Rightarrow> bool" where
  "js_lt NaN _ = False"
| "js_lt _ NaN = False"
| "js_lt (Fin a) (Fin b) = (a < b)"
| "js_lt _ NInf = False"
| "js_lt PInf _ = False"
| "js_lt NInf _ = True"
| "js_lt _ PInf = True"

definition js_gt :: "jsnum \<Rightarrow> jsnum \<Rightarrow> bool" where
  "js_gt a b = js_lt b a"

definition js_le :: "jsnum \<Rightarrow> jsnum \<Rightarrow> bool" where
  "js_le a b = (a \<noteq> NaN \<and> b \<noteq> NaN \<and> \<not> js_lt b a)"

definition js_ge :: "jsnum \<Rightarrow> jsnum \<Rightarrow> bool" where
  "js_ge a b = js_le b a"

text \<open>\<open>Math.min\<close> and \<open>Math.max\<close> of two arguments: \<open>NaN\<close> as soon as one of them is.\<close>

definition Math_min :: "jsnum \<Rightarrow> jsnum \<Rightarrow> jsnum" where
  "Math_min a b = (if a = NaN \<or> b = NaN then NaN else if js_lt b a then b else a)"

definition Math_max :: "jsnum \<Rightarrow> jsnum \<Rightarrow> jsnum" where
  "Math_max a b = (if a = NaN \<or> b = NaN then NaN else if js_lt a b then b else a)"

text \<open>\<open>n || 0\<close> on a number: the falsy numbers are \<open>0\<close> and \<open>NaN\<close>.\<close>

definition or0 :: "jsnum \<Rightarrow> jsnum" where
  "or0 n = (if n = NaN \<or> n = Fin 0 then Fin 0 else n)"

subsection \<open>Strings\<close>

text \<open>
  Strings are lists of ASCII characters. \<open>trim\<close> removes the ASCII white space at both
  ends and \<open>toLowerCase\<close> folds the letters A to Z.
\<close>

definition is_ws :: "char \<Rightarrow> bool" where
  "is_ws c = (c \<in> set [CHR '' '', CHR 0x09, CHR 0x0A, CHR 0x0B, CHR 0x0C, CHR 0x0D])"

definition trim :: "string \<Rightarrow> string" where
  "trim s = rev (dropWhile is_ws (rev (dropWhile is_ws s)))"

definition lower_char :: "char \<Rightarrow> char" where
  "lower_char c =
     (case map_of (zip ''ABCDEFGHIJKLMNOPQRSTUVWXYZ'' ''abcdefghijklmnopqrstuvwxyz'') c of
        None \<Rightarrow> c
      | Some l \<Rightarrow> l)"

definition toLowerCase :: "string \<Rightarrow> string" where
  "toLowerCase s = map lower_char s"

text \<open>\<open>s.includes(t)\<close>: \<open>t\<close> occurs in \<open>s\<close> at some position.\<close>

fun str_includes :: "string \<Rightarrow> string \<Rightarrow> bool" where
  "str_includes [] t = (t = [])"
| "str_includes (c # s) t = (prefix t (c # s) \<or> str_includes s t)"

definition is_digit :: "char \<Rightarrow> bool" where
  "is_digit c = (let n = (of_char c :: nat) in 48 \<le> n \<and> n \<le> 57)"

text \<open>
  \<open>s.replace(/^0+(?=\d)/, "")\<close>: the longest run of leading zeros that is followed by a
  digit is removed. When the run is followed by a digit all of it goes; otherwise the
  last zero of the run is the digit that follows the others.
\<close>

definition strip0 :: "string \<Rightarrow> string" where
  "strip0 s =
     (let zs = takeWhile (\<lambda>c. c = CHR ''0'') s; rest = dropWhile (\<lambda>c. c = CHR ''0'') s
      in if zs = [] then s
         else (case rest of
                 c # _ \<Rightarrow> if is_digit c then rest
                          else if 2 \<le> length zs then CHR ''0'' # rest else s
               | [] \<Rightarrow> if 2 \<le> length zs then [CHR ''0''] else s))"

subsection \<open>The built-ins the pages call\<close>

text \<open>
  The conversions of the JavaScript runtime are inputs of the model: \<open>Number\<close> applied to
  a string, \<open>String\<close> applied to a number, the time value of \<open>new Date(s)\<close>
  (\<open>None\<close> for an invalid date), the offset of the local time zone in milliseconds
  (local time = UTC + offset, taken as constant) and \<open>Date.now()\<close>.
\<close>

record js_env =
  Number :: "string \<Rightarrow> jsnum"
  String_of_number :: "jsnum \<Rightarrow> string"
  Date_parse :: "string \<Rightarrow> int option"
  LocalTZA :: int
  Date_now :: int

definition msPerDay :: int where
  "msPerDay = 86400000"

text \<open>
  \<open>d.setHours(23, 59, 59, 999)\<close> on a valid date with time value \<open>t\<close>: the day of the
  local time \<open>t + LocalTZA\<close> is kept, the time within the day is replaced by
  23:59:59.999, and the result is converted back to UTC.
\<close>

definition setHours_23_59_59_999 :: "int \<Rightarrow> int \<Rightarrow> int" where
  "setHours_23_59_59_999 tza t =
     ((t + tza) div msPerDay) * msPerDay + (23 * 3600000 + 59 * 60000 + 59 * 1000 + 999) - tza"

section \<open>The voucher record (interface Voucher)\<close>

datatype VoucherStatus = unused | used | expired

text \<open>
  The columns the pages write on an insert, and the row the store returns: the same
  columns with the identifier and the creation time the store assigns.
\<close>

record VoucherRow =
  user_id :: "string option"
  name :: string
  "value" :: jsnum
  spent :: jsnum
  category :: string
  code :: "string option"
  pin :: "string option"
  expires_on :: "string option"
  status :: VoucherStatus

record Voucher = VoucherRow +
  id_v :: string
  created_at :: string

section \<open>Status derivation (the Vouchers and Dashboard pages)\<close>

text \<open>
  Both pages define the same function. The one of the Vouchers page ends with
  \<open>v.status || "unused"\<close>, the one of the Dashboard with \<open>v.status\<close>; both return
  \<open>v.status\<close> for each of the three values of the declared type.
\<close>

definition deriveStatus :: "js_env \<Rightarrow> Voucher \<Rightarrow> VoucherStatus" where
  "deriveStatus env v =
     (case expires_on v of
        None \<Rightarrow> status v
      | Some s \<Rightarrow>
          if s = [] then status v
          else (case Date_parse env s of
                  None \<Rightarrow> status v
                | Some t \<Rightarrow>
                    if setHours_23_59_59_999 (LocalTZA env) t < Date_now env then expired
                    else status v))"

section \<open>Ledger mutations (the Vouchers page)\<close>

text \<open>
  A handler ends in one of three ways: it returns without doing anything, it shows an
  alert and writes nothing, or it issues one request to the store.
\<close>

datatype alert_msg =
    Please_enter_name
  | Enter_a_valid_amount
  | Initial_used_must_be_nonnegative
  | Initial_used_cannot_exceed_value
  | Amount_must_be_positive
  | Amount_exceeds_remaining_balance
  | No_valid_rows_found
  | Not_logged_in

datatype 'a outcome = Returned | Alert alert_msg | Issued 'a

text \<open>
  The argument of \<open>update(payload)\<close>: the columns that are present are written, the
  others are left as they are. The three nullable columns can be written as \<open>null\<close>.
\<close>

record VoucherPatch =
  name_upd :: "string option"
  value_upd :: "jsnum option"
  category_upd :: "string option"
  code_upd :: "string option option"
  pin_upd :: "string option option"
  expires_on_upd :: "string option option"
  spent_upd :: "jsnum option"
  status_upd :: "VoucherStatus option"

definition upd :: "'a option \<Rightarrow> 'a \<Rightarrow> 'a" where
  "upd x old = (case x of None \<Rightarrow> old | Some new \<Rightarrow> new)"

definition apply_patch :: "VoucherPatch \<Rightarrow> Voucher \<Rightarrow> Voucher" where
  "apply_patch p v =
     v\<lparr> name := upd (name_upd p) (name v),
        value := upd (value_upd p) (value v),
        category := upd (category_upd p) (category v),
        code := upd (code_upd p) (code v),
        pin := upd (pin_upd p) (pin v),
        expires_on := upd (expires_on_upd p) (expires_on v),
        spent := upd (spent_upd p) (spent v),
        status := upd (status_upd p) (status v) \<rparr>"

text \<open>\<open>s.trim() || null\<close> and \<open>s || null\<close>.\<close>

definition or_null :: "string \<Rightarrow> string option" where
  "or_null s = (if s = [] then None else Some s)"

subsection \<open>Add\<close>

record AddForm =
  name_f :: string
  value_f :: string
  initialUsed_f :: string
  code_f :: string
  pin_f :: string
  expires_f :: string
  category_f :: string

definition addVoucher :: "js_env \<Rightarrow> string option \<Rightarrow> AddForm \<Rightarrow> VoucherRow outcome" where
  "addVoucher env user f =
     (case user of
        None \<Rightarrow> Returned
      | Some uid \<Rightarrow>
          let numericValue = Number env (strip0 (value_f f));
              numericInitialUsed =
                (if initialUsed_f f \<noteq> [] then Number env (strip0 (initialUsed_f f)) else Fin 0)
          in if trim (name_f f) = [] then Alert Please_enter_name
             else if \<not> isFinite numericValue \<or> js_le numericValue (Fin 0)
               then Alert Enter_a_valid_amount
             else if \<not> isFinite numericInitialUsed \<or> js_lt numericInitialUsed (Fin 0)
               then Alert Initial_used_must_be_nonnegative
             else if js_gt numericInitialUsed numericValue
               then Alert Initial_used_cannot_exceed_value
             else Issued \<lparr> user_id = Some uid,
                           name = trim (name_f f),
                           value = numericValue,
                           spent = numericInitialUsed,
                           category = category_f f,
                           code = or_null (trim (code_f f)),
                           pin = or_null (trim (pin_f f)),
                           expires_on = or_null (expires_f f),
                           status = (if js_ge numericInitialUsed numericValue then used else unused) \<rparr>)"

subsection \<open>Partial usage\<close>

definition savePartialUsage ::
  "js_env \<Rightarrow> Voucher option \<Rightarrow> string \<Rightarrow> (string \<times> VoucherPatch) outcome" where
  "savePartialUsage env useItem useAmount =
     (case useItem of
        None \<Rightarrow> Returned
      | Some item \<Rightarrow>
          let amt = Number env (strip0 useAmount)
          in if \<not> isFinite amt \<or> js_le amt (Fin 0) then Alert Amount_must_be_positive
             else
               let remaining = js_sub (or0 (value item)) (or0 (spent item))
               in if js_gt amt remaining then Alert Amount_exceeds_remaining_balance
                  else
                    let newSpent = js_add (or0 (spent item)) amt;
                        newStatus = (if js_ge newSpent (or0 (value item)) then used else unused)
                    in Issued (id_v item,
                         \<lparr> name_upd = None, value_upd = None, category_upd = None,
                           code_upd = None, pin_upd = None, expires_on_upd = None,
                           spent_upd = Some newSpent, status_upd = Some newStatus \<rparr>))"

subsection \<open>Edit\<close>

record EditForm =
  name_e :: string
  value_e :: string
  category_e :: string
  code_e :: string
  pin_e :: string
  expires_on_e :: string

definition saveEdit ::
  "js_env \<Rightarrow> Voucher list \<Rightarrow> Voucher option \<Rightarrow> EditForm \<Rightarrow> (string \<times> VoucherPatch) outcome" where
  "saveEdit env list editItem editForm =
     (case editItem of
        None \<Rightarrow> Returned
      | Some item \<Rightarrow>
          let numericValue = Number env (strip0 (value_e editForm))
          in if trim (name_e editForm) = [] then Alert Please_enter_name
             else if \<not> isFinite numericValue \<or> js_le numericValue (Fin 0)
               then Alert Enter_a_valid_amount
             else
               let current = find (\<lambda>x. id_v x = id_v item) list;
                   payload =
                     \<lparr> name_upd = Some (trim (name_e editForm)),
                       value_upd = Some numericValue,
                       category_upd = Some (category_e editForm),
                       code_upd = Some (or_null (trim (code_e editForm))),
                       pin_upd = Some (or_null (trim (pin_e editForm))),
                       expires_on_upd = Some (or_null (expires_on_e editForm)),
                       spent_upd = None, status_upd = None \<rparr>
               in (case current of
                     None \<Rightarrow> Issued (id_v item, payload)
                   | Some cur \<Rightarrow>
                       let clampedSpent = Math_min (or0 (spent cur)) numericValue;
                           newStatus =
                             (if js_ge clampedSpent numericValue then used else status cur)
                       in Issued (id_v item,
                            payload\<lparr> spent_upd := Some clampedSpent,
                                     status_upd := Some newStatus \<rparr>)))"

subsection \<open>Toggle\<close>

definition toggleStatus :: "Voucher \<Rightarrow> (string \<times> VoucherPatch) outcome" where
  "toggleStatus v =
     (let makeUsed = (status v = unused);
          payload =
            (if makeUsed
             then \<lparr> name_upd = None, value_upd = None, category_upd = None,
                    code_upd = None, pin_upd = None, expires_on_upd = None,
                    spent_upd = Some (value v), status_upd = Some used \<rparr>
             else \<lparr> name_upd = None, value_upd = None, category_upd = None,
                    code_upd = None, pin_upd = None, expires_on_upd = None,
                    spent_upd = Some (Fin 0), status_upd = Some unused \<rparr>)
      in Issued (id_v v, payload))"

section \<open>Interchange with a spreadsheet (the Vouchers page)\<close>

text \<open>
  A cell of a sheet as the xlsx library hands it over: a number, a string or a boolean.
  A property that an object does not have reads as \<open>undefined\<close>, here \<open>None\<close>.
  A row object keeps its keys in insertion order, so it is an association list.
\<close>

datatype cell = CNum jsnum | CStr string | CBool bool

type_synonym row = "(string \<times> cell) list"

fun truthy_cell :: "cell option \<Rightarrow> bool" where
  "truthy_cell None = False"
| "truthy_cell (Some (CNum n)) = (n \<noteq> NaN \<and> n \<noteq> Fin 0)"
| "truthy_cell (Some (CStr s)) = (s \<noteq> [])"
| "truthy_cell (Some (CBool b)) = b"

fun String_cell :: "js_env \<Rightarrow> cell option \<Rightarrow> string" where
  "String_cell env None = ''undefined''"
| "String_cell env (Some (CNum n)) = String_of_number env n"
| "String_cell env (Some (CStr s)) = s"
| "String_cell env (Some (CBool b)) = (if b then ''true'' else ''false'')"

definition status_str :: "VoucherStatus \<Rightarrow> string" where
  "status_str st = (case st of unused \<Rightarrow> ''unused'' | used \<Rightarrow> ''used'' | expired \<Rightarrow> ''expired'')"

subsection \<open>Export\<close>

definition export_row :: "js_env \<Rightarrow> Voucher \<Rightarrow> row" where
  "export_row env v =
     [ (''name'', CStr (name v)),
       (''value'', CNum (value v)),
       (''spent'', CNum (spent v)),
       (''remaining'', CNum (Math_max (Fin 0) (js_sub (or0 (value v)) (or0 (spent v))))),
       (''category'', CStr (category v)),
       (''code'', CStr (case code v of None \<Rightarrow> [] | Some c \<Rightarrow> c)),
       (''pin'', CStr (case pin v of None \<Rightarrow> [] | Some c \<Rightarrow> c)),
       (''expires_on'', CStr (case expires_on v of None \<Rightarrow> [] | Some c \<Rightarrow> c)),
       (''status'', CStr (status_str (deriveStatus env v))),
       (''created_at'', CStr (created_at v)) ]"

text \<open>
  \<open>exportExcel\<close> up to the array of arrays it hands to \<open>aoa_to_sheet\<close>: the header
  row, then one array per voucher. The header row is \<open>Object.keys(rows[0] ?? {sample: ""})\<close>.
\<close>

definition export_headers :: "row list \<Rightarrow> string list" where
  "export_headers rows = (case rows of [] \<Rightarrow> [''sample''] | r # _ \<Rightarrow> map fst r)"

definition exportExcel :: "js_env \<Rightarrow> Voucher list \<Rightarrow> cell option list list" where
  "exportExcel env list =
     (let rows = map (export_row env) list;
          headers = export_headers rows
      in map (\<lambda>h. Some (CStr h)) headers # map (\<lambda>r. map (\<lambda>h. map_of r h) headers) rows)"

subsection \<open>Import\<close>

definition toNum :: "js_env \<Rightarrow> cell option \<Rightarrow> jsnum" where
  "toNum env s =
     (let n = Number env (strip0 (String_cell env s)) in if isFinite n then n else Fin 0)"

definition import_row :: "js_env \<Rightarrow> string \<Rightarrow> row \<Rightarrow> VoucherRow" where
  "import_row env uid r =
     (let value = toNum env (map_of r ''value'');
          spent = Math_max (Fin 0)
                    (toNum env (if truthy_cell (map_of r ''spent'') then map_of r ''spent''
                                else Some (CNum (Fin 0))))
      in \<lparr> user_id = Some uid,
           name = trim (if truthy_cell (map_of r ''name'') then String_cell env (map_of r ''name'')
                        else []),
           value = value,
           spent = Math_min spent value,
           category = (if truthy_cell (map_of r ''category'')
                       then String_cell env (map_of r ''category'') else ''General''),
           code = (if truthy_cell (map_of r ''code'')
                   then Some (String_cell env (map_of r ''code'')) else None),
           pin = (if truthy_cell (map_of r ''pin'')
                  then Some (String_cell env (map_of r ''pin'')) else None),
           expires_on = (if truthy_cell (map_of r ''expires_on'')
                         then Some (String_cell env (map_of r ''expires_on'')) else None),
           status = (if js_ge spent value then used else unused) \<rparr>)"

definition import_payload :: "js_env \<Rightarrow> string \<Rightarrow> row list \<Rightarrow> VoucherRow list" where
  "import_payload env uid rows =
     filter (\<lambda>r. name r \<noteq> [] \<and> js_gt (value r) (Fin 0)) (map (import_row env uid) rows)"

text \<open>
  \<open>importExcel\<close> from the rows \<open>sheet_to_json\<close> returns: one \<open>insert\<close> of the
  whole payload, or an alert when the payload is empty.
\<close>

definition importExcel :: "js_env \<Rightarrow> string option \<Rightarrow> row list \<Rightarrow> VoucherRow list outcome" where
  "importExcel env user rows =
     (case user of
        None \<Rightarrow> Alert Not_logged_in
      | Some uid \<Rightarrow>
          let payload = import_payload env uid rows
          in if payload = [] then Alert No_valid_rows_found else Issued payload)"

text \<open>
  The way through the file, which is the xlsx library's and not this repository's:
  \<open>sheet_to_json(ws, {defval: ""})\<close> on the sheet made from an array of arrays. The
  first array gives the keys, every further array one object; a cell that is missing
  reads as the default value, the empty string.
\<close>

definition header_key :: "js_env \<Rightarrow> cell option \<Rightarrow> string" where
  "header_key env c = (case c of None \<Rightarrow> ''__EMPTY'' | Some _ \<Rightarrow> String_cell env c)"

definition sheet_to_json :: "js_env \<Rightarrow> cell option list list \<Rightarrow> row list" where
  "sheet_to_json env data =
     (case data of
        [] \<Rightarrow> []
      | hdr # body \<Rightarrow>
          map (\<lambda>r. zip (map (header_key env) hdr)
                       (map (\<lambda>c. case c of None \<Rightarrow> CStr [] | Some x \<Rightarrow> x) r)) body)"

section \<open>List projection (the Vouchers page)\<close>

datatype SortKey =
    created_desc
  | value_desc
  | value_asc
  | expiry_asc
  | remaining_desc
  | status_used_first
  | status_unused_first

text \<open>
  \<open>Array.prototype.sort\<close> with a comparator: the sort is stable, a comparator result
  that is \<open>NaN\<close> counts as \<open>0\<close>, and \<open>x\<close> goes after \<open>y\<close> exactly when the
  comparator is positive on \<open>(x, y)\<close>. The model inserts the elements from the right, each
  one before the first element it does not go after; on a comparator that is a consistent
  ordering every stable sort returns this list.
\<close>

fun insert_cmp :: "('a \<Rightarrow> 'a \<Rightarrow> jsnum) \<Rightarrow> 'a \<Rightarrow> 'a list \<Rightarrow> 'a list" where
  "insert_cmp cmp x [] = [x]"
| "insert_cmp cmp x (y # ys) =
     (if js_gt (cmp x y) (Fin 0) then y # insert_cmp cmp x ys else x # y # ys)"

definition Array_sort :: "('a \<Rightarrow> 'a \<Rightarrow> jsnum) \<Rightarrow> 'a list \<Rightarrow> 'a list" where
  "Array_sort cmp xs = foldr (insert_cmp cmp) xs []"

definition remaining :: "Voucher \<Rightarrow> jsnum" where
  "remaining v = Math_max (Fin 0) (js_sub (or0 (value v)) (or0 (spent v)))"

definition expMs :: "js_env \<Rightarrow> Voucher \<Rightarrow> jsnum" where
  "expMs env v =
     (case expires_on v of
        None \<Rightarrow> PInf
      | Some s \<Rightarrow>
          if s = [] then PInf
          else (case Date_parse env s of None \<Rightarrow> NaN | Some t \<Rightarrow> Fin (of_int t)))"

definition rank_used_first :: "VoucherStatus \<Rightarrow> jsnum" where
  "rank_used_first st = (case st of used \<Rightarrow> Fin 0 | unused \<Rightarrow> Fin 1 | expired \<Rightarrow> Fin 2)"

definition rank_unused_first :: "VoucherStatus \<Rightarrow> jsnum" where
  "rank_unused_first st = (case st of unused \<Rightarrow> Fin 0 | used \<Rightarrow> Fin 1 | expired \<Rightarrow> Fin 2)"

definition inSearch :: "string \<Rightarrow> Voucher \<Rightarrow> bool" where
  "inSearch term v =
     (term = []
      \<or> str_includes (toLowerCase (name v)) term
      \<or> (case code v of None \<Rightarrow> False | Some c \<Rightarrow> str_includes (toLowerCase c) term)
      \<or> str_includes (toLowerCase (category v)) term)"

definition filtered :: "js_env \<Rightarrow> Voucher list \<Rightarrow> string \<Rightarrow> string \<Rightarrow> SortKey \<Rightarrow> Voucher list" where
  "filtered env list filterCategory search sortKey =
     (let term = toLowerCase (trim search);
          arr = filter (\<lambda>v.
                  let inCategory = (if filterCategory = ''All'' then True
                                    else category v = filterCategory)
                  in inCategory \<and> inSearch term v) list
      in case sortKey of
           value_desc \<Rightarrow> Array_sort (\<lambda>a b. js_sub (or0 (value b)) (or0 (value a))) arr
         | value_asc \<Rightarrow> Array_sort (\<lambda>a b. js_sub (or0 (value a)) (or0 (value b))) arr
         | expiry_asc \<Rightarrow> Array_sort (\<lambda>a b. js_sub (expMs env a) (expMs env b)) arr
         | remaining_desc \<Rightarrow> Array_sort (\<lambda>a b. js_sub (remaining b) (remaining a)) arr
         | status_used_first \<Rightarrow>
             Array_sort (\<lambda>a b. js_sub (rank_used_first (deriveStatus env a))
                                     (rank_used_first (deriveStatus env b))) arr
         | status_unused_first \<Rightarrow>
             Array_sort (\<lambda>a b. js_sub (rank_unused_first (deriveStatus env a))
                                     (rank_unused_first (deriveStatus env b))) arr
         | created_desc \<Rightarrow> arr)"

section \<open>Notions used in the statements\<close>

text \<open>The balance invariant of the data model: \<open>0 \<le> spent \<le> value\<close>.\<close>

definition ledger_inv :: "jsnum \<Rightarrow> jsnum \<Rightarrow> bool" where
  "ledger_inv val sp = (js_le (Fin 0) sp \<and> js_le sp val)"

text \<open>
  What a handler's outcome does to a row of the store: \<open>update(payload).eq("id", i)\<close>
  rewrites the row whose identifier is \<open>i\<close>; an alert or a plain return writes nothing.
\<close>

definition store_update :: "(string \<times> VoucherPatch) outcome \<Rightarrow> Voucher \<Rightarrow> Voucher" where
  "store_update out v =
     (case out of
        Issued (i, p) \<Rightarrow> if i = id_v v then apply_patch p v else v
      | _ \<Rightarrow> v)"

text \<open>\<open>toggle(v)\<close>: the row after the request of \<open>toggleStatus\<close> is carried out.\<close>

definition toggle :: "Voucher \<Rightarrow> Voucher" where
  "toggle v = store_update (toggleStatus v) v"

subsection \<open>Status derivation as specified\<close>

text \<open>
  The instant 23:59:59.999 local time of the calendar day with number \<open>day\<close> (days since
  1970-01-01), for a zone whose local time is UTC + \<open>tza\<close>.
\<close>

definition end_of_local_day :: "int \<Rightarrow> int \<Rightarrow> int" where
  "end_of_local_day tza day = day * msPerDay + 86399999 - tza"

text \<open>
  \<open>expires_on\<close> is a calendar date. The runtime reads a date without a time as midnight
  UTC of that date, so the number of the day is the time value divided by the length of a
  day.
\<close>

definition expiry_day :: "js_env \<Rightarrow> string \<Rightarrow> int option" where
  "expiry_day env s = map_option (\<lambda>t. t div msPerDay) (Date_parse env s)"

text \<open>
  The derived status of the specification: \<open>expired\<close> when an expiry date is present and
  \<open>now\<close> is strictly after 23:59:59.999 local time of that date, the stored status
  otherwise. This definition follows the specification, not the code.
\<close>

definition spec_derive :: "js_env \<Rightarrow> Voucher \<Rightarrow> VoucherStatus" where
  "spec_derive env v =
     (case expires_on v of
        None \<Rightarrow> status v
      | Some s \<Rightarrow>
          (case expiry_day env s of
             None \<Rightarrow> status v
           | Some d \<Rightarrow>
               if end_of_local_day (LocalTZA env) d < Date_now env then expired else status v))"

text \<open>
  The two conditions under which the code derives the status as specified: the local zone
  is at or east of UTC, and an expiry that the runtime can read is a date without a time
  (midnight UTC).
\<close>

definition east_of_UTC :: "js_env \<Rightarrow> bool" where
  "east_of_UTC env = (0 \<le> LocalTZA env \<and> LocalTZA env < msPerDay)"

definition date_only :: "js_env \<Rightarrow> Voucher \<Rightarrow> bool" where
  "date_only env v =
     (case expires_on v of
        None \<Rightarrow> True
      | Some s \<Rightarrow>
          (case Date_parse env s of
             None \<Rightarrow> True
           | Some t \<Rightarrow> s \<noteq> [] \<and> t mod msPerDay = 0))"

subsection \<open>Bulk import: the fields of a row as specified\<close>

text \<open>
  A text field is the text of the cell, or a default when the cell is empty; an optional
  text field is absent when the cell is empty. \<open>spec_clamp lo hi x\<close> is \<open>x\<close> clamped
  into \<open>[lo, hi]\<close>. A row is dropped when its trimmed name is empty or its value is not
  positive.
\<close>

definition text_or :: "js_env \<Rightarrow> cell option \<Rightarrow> string \<Rightarrow> string" where
  "text_or env c dflt = (if truthy_cell c then String_cell env c else dflt)"

definition text_or_null :: "js_env \<Rightarrow> cell option \<Rightarrow> string option" where
  "text_or_null env c = (if truthy_cell c then Some (String_cell env c) else None)"

definition spent_cell :: "row \<Rightarrow> cell option" where
  "spent_cell r = (if truthy_cell (map_of r ''spent'') then map_of r ''spent'' else Some (CNum (Fin 0)))"

definition spec_clamp :: "jsnum \<Rightarrow> jsnum \<Rightarrow> jsnum \<Rightarrow> jsnum" where
  "spec_clamp lo hi x = (if js_lt x lo then lo else if js_lt hi x then hi else x)"

definition row_dropped :: "js_env \<Rightarrow> row \<Rightarrow> bool" where
  "row_dropped env r =
     (trim (if truthy_cell (map_of r ''name'') then String_cell env (map_of r ''name'') else []) = []
      \<or> js_le (toNum env (map_of r ''value'')) (Fin 0))"

subsection \<open>Export: the column list and the flat row\<close>

definition export_columns :: "string list" where
  "export_columns =
     [''name'', ''value'', ''spent'', ''remaining'', ''category'', ''code'', ''pin'',
      ''expires_on'', ''status'', ''created_at'']"

definition header_cells :: "string list \<Rightarrow> cell option list" where
  "header_cells hs = map (Some \<circ> CStr) hs"



subsection \<open>List projection: the reference pipeline\<close>

text \<open>The real number a finite JavaScript number stands for.\<close>

fun num :: "jsnum \<Rightarrow> real" where
  "num (Fin r) = r"
| "num _ = 0"

text \<open>
  Filter, then search, then sort, each stage as the specification words it. A search term
  is a case-insensitive substring of a field when its lower-case form is a contiguous part
  of the field's lower-case form. The sort is the library's stable sort by a key; the key
  is a pair ordered lexicographically whose first component is true exactly for "no
  expiry", which puts those vouchers after every dated one. The two status keys rank the
  derived status as specified.
\<close>

definition ci_substring :: "string \<Rightarrow> string \<Rightarrow> bool" where
  "ci_substring t s = sublist (toLowerCase t) (toLowerCase s)"

definition spec_filter :: "string \<Rightarrow> Voucher list \<Rightarrow> Voucher list" where
  "spec_filter cat xs = filter (\<lambda>v. cat = ''All'' \<or> category v = cat) xs"

definition spec_search :: "string \<Rightarrow> Voucher list \<Rightarrow> Voucher list" where
  "spec_search search xs =
     filter (\<lambda>v. trim search = []
                \<or> ci_substring (trim search) (name v)
                \<or> (case code v of None \<Rightarrow> False | Some c \<Rightarrow> ci_substring (trim search) c)
                \<or> ci_substring (trim search) (category v)) xs"

definition spec_rank_used_first :: "VoucherStatus \<Rightarrow> real" where
  "spec_rank_used_first st = (case st of used \<Rightarrow> 0 | unused \<Rightarrow> 1 | expired \<Rightarrow> 2)"

definition spec_rank_unused_first :: "VoucherStatus \<Rightarrow> real" where
  "spec_rank_unused_first st = (case st of unused \<Rightarrow> 0 | used \<Rightarrow> 1 | expired \<Rightarrow> 2)"

definition spec_key :: "js_env \<Rightarrow> SortKey \<Rightarrow> Voucher \<Rightarrow> bool \<times> real" where
  "spec_key env k v =
     (case k of
        created_desc \<Rightarrow> (False, 0)
      | value_desc \<Rightarrow> (False, - num (value v))
      | value_asc \<Rightarrow> (False, num (value v))
      | expiry_asc \<Rightarrow>
          (case expires_on v of
             None \<Rightarrow> (True, 0)
           | Some s \<Rightarrow> (case Date_parse env s of
                         None \<Rightarrow> (True, 0)
                       | Some t \<Rightarrow> (False, of_int t)))
      | remaining_desc \<Rightarrow> (False, - (num (value v) - num (spent v)))
      | status_used_first \<Rightarrow> (False, spec_rank_used_first (spec_derive env v))
      | status_unused_first \<Rightarrow> (False, spec_rank_unused_first (spec_derive env v)))"

definition spec_sort :: "js_env \<Rightarrow> SortKey \<Rightarrow> Voucher list \<Rightarrow> Voucher list" where
  "spec_sort env k xs = (if k = created_desc then xs else sort_key (spec_key env k) xs)"

definition spec_project ::
  "js_env \<Rightarrow> Voucher list \<Rightarrow> string \<Rightarrow> string \<Rightarrow> SortKey \<Rightarrow> Voucher list" where
  "spec_project env xs cat search k = spec_sort env k (spec_search search (spec_filter cat xs))"

subsection \<open>Round trip: what is compared\<close>

text \<open>
  \<open>Number(String(n))\<close> gives back \<open>n\<close> for every JavaScript number; the statement
  asks it of the environment for the numbers of the list. A voucher goes through the
  import when its value is finite and positive, \<open>0 \<le> spent \<le> value\<close>, its name is not
  empty and has no white space around it, and its category is not empty.
\<close>

definition num_round_trip :: "js_env \<Rightarrow> jsnum \<Rightarrow> bool" where
  "num_round_trip env n = (Number env (strip0 (String_of_number env n)) = n)"

definition importable :: "js_env \<Rightarrow> Voucher \<Rightarrow> bool" where
  "importable env v =
     (isFinite (value v) \<and> js_gt (value v) (Fin 0) \<and> ledger_inv (value v) (spent v)
      \<and> name v \<noteq> [] \<and> trim (name v) = name v \<and> category v \<noteq> []
      \<and> num_round_trip env (value v) \<and> num_round_trip env (spent v))"

definition tuple_of :: "'a VoucherRow_scheme \<Rightarrow> string \<times> jsnum \<times> jsnum \<times> string" where
  "tuple_of r = (name r, value r, spent r, category r)"

definition written_rows :: "VoucherRow list outcome \<Rightarrow> VoucherRow list" where
  "written_rows out = (case out of Issued payload \<Rightarrow> payload | _ \<Rightarrow> [])"

subsection \<open>A concrete environment for the examples\<close>

text \<open>
  The binary64 values nearest to the decimals 0.6, 1.1 and 1.7: what the runtime holds
  after reading \<open>"0.6"\<close>, \<open>"1.1"\<close> and \<open>"1.7"\<close>.
\<close>

definition dbl_0_6 :: real where
  "dbl_0_6 = 5404319552844595 / 2 ^ 53"

definition dbl_1_1 :: real where
  "dbl_1_1 = 4953959590107546 / 2 ^ 52"

definition dbl_1_7 :: real where
  "dbl_1_7 = 7656119366529843 / 2 ^ 52"

text \<open>
  On the decimal strings below \<open>example_Number\<close> and \<open>example_String\<close> agree with the
  built-ins; every other string is read as \<open>NaN\<close>, as the built-in reads text that is
  not a numeric literal. \<open>example_Date_parse\<close> knows two dates, with the time values of
  midnight UTC.
\<close>

definition example_numbers :: "(string \<times> real) list" where
  "example_numbers =
     [(''0'', 0), (''1'', 1), (''100'', 100), (''200'', 200), (''300'', 300), (''400'', 400),
      (''500'', 500), (''700'', 700), (''800'', 800), (''801'', 801), (''1000'', 1000),
      (''0.6'', dbl_0_6), (''1.1'', dbl_1_1), (''1.7'', dbl_1_7)]"

definition example_Number :: "string \<Rightarrow> jsnum" where
  "example_Number s = (case map_of example_numbers s of None \<Rightarrow> NaN | Some r \<Rightarrow> Fin r)"

definition example_String :: "jsnum \<Rightarrow> string" where
  "example_String n =
     (case n of
        Fin r \<Rightarrow> (case find (\<lambda>e. snd e = r) example_numbers of
                    None \<Rightarrow> ''NaN'' | Some e \<Rightarrow> fst e)
      | _ \<Rightarrow> ''NaN'')"

definition example_Date_parse :: "string \<Rightarrow> int option" where
  "example_Date_parse s =
     map_of [(''2024-06-01'', 1717200000000), (''2025-01-01'', 1735689600000)] s"

definition example_env :: "int \<Rightarrow> int \<Rightarrow> js_env" where
  "example_env tza now =
     \<lparr> Number = example_Number, String_of_number = example_String,
       Date_parse = example_Date_parse, LocalTZA = tza, Date_now = now \<rparr>"

definition example_voucher :: "jsnum \<Rightarrow> jsnum \<Rightarrow> VoucherStatus \<Rightarrow> Voucher" where
  "example_voucher val sp st =
     \<lparr> user_id = Some ''u1'', name = ''Amazon'', value = val, spent = sp,
       category = ''Shopping'', code = None, pin = None, expires_on = None, status = st,
       id_v = ''v1'', created_at = ''2024-05-01T10:00:00Z'' \<rparr>"

definition example_add_form :: AddForm where
  "example_add_form =
     \<lparr> name_f = ''Amazon'', value_f = ''1000'', initialUsed_f = ''0'', code_f = [],
       pin_f = [], expires_f = [], category_f = ''General'' \<rparr>"

definition example_edit_form :: "string \<Rightarrow> EditForm" where
  "example_edit_form val =
     \<lparr> name_e = ''Amazon'', value_e = val, category_e = ''Shopping'', code_e = [],
       pin_e = [], expires_on_e = [] \<rparr>"

definition example_import_rows :: "row list" where
  "example_import_rows =
     [ [(''name'', CStr []), (''value'', CNum (Fin 500))],
       [(''name'', CStr ''Gift''), (''value'', CNum (Fin 0))],
       [(''name'', CStr ''Gift''), (''value'', CNum (Fin 300)), (''spent'', CNum (Fin 400))],
       [(''name'', CStr '' Card ''), (''value'', CStr ''0300''), (''spent'', CNum (Fin 100)),
        (''category'', CStr ''Food''), (''code'', CStr ''X1''), (''pin'', CStr []),
        (''expires_on'', CStr ''2025-01-01''), (''status'', CStr ''used'')] ]"

definition example_row :: "string \<Rightarrow> jsnum \<Rightarrow> jsnum \<Rightarrow> VoucherStatus \<Rightarrow> VoucherRow" where
  "example_row nm val sp st =
     \<lparr> user_id = Some ''u1'', name = nm, value = val, spent = sp, category = ''General'',
       code = None, pin = None, expires_on = None, status = st \<rparr>"

definition example_expiring :: "string \<Rightarrow> string option \<Rightarrow> Voucher" where
  "example_expiring i e = (example_voucher (Fin 1000) (Fin 0) unused)\<lparr> expires_on := e, id_v := i \<rparr>"

definition example_named :: "string \<Rightarrow> string \<Rightarrow> string \<Rightarrow> jsnum \<Rightarrow> Voucher" where
  "example_named i nm cat val =
     (example_voucher val (Fin 0) unused)\<lparr> name := nm, category := cat, id_v := i \<rparr>"

definition example_shop_list :: "Voucher list" where
  "example_shop_list =
     [example_named ''1'' ''Amazon'' ''Shopping'' (Fin 500),
      example_named ''2'' ''Flipkart'' ''Food'' (Fin 1000),
      example_named ''3'' ''amazon pay'' ''Shopping'' (Fin 1000),
      example_named ''4'' ''AMAZON Fresh'' ''Shopping'' (Fin 500)]"

definition example_zero :: Voucher where
  "example_zero = (example_voucher (Fin 0) (Fin 0) unused)\<lparr> name := ''Gift'', id_v := ''v0'' \<rparr>"

text \<open>
  An unused voucher that expires on 2025-01-01 and a used voucher without expiry, in the
  order the store returns them.
\<close>

definition example_status_list :: "Voucher list" where
  "example_status_list =
     [example_expiring ''a'' (Some ''2025-01-01''),
      (example_voucher (Fin 1000) (Fin 1000) used)\<lparr> id_v := ''b'' \<rparr>]"

section \<open>Properties\<close>

subsection \<open>Arithmetic and comparisons on finite numbers\<close>

lemma or0_Fin [simp]: "or0 (Fin a) = Fin a"
  by (simp add: or0_def)

lemma js_add_Fin: "js_add (Fin a) (Fin b) = fl64 (a + b)"
  by simp

lemma js_sub_Fin [simp]: "js_sub (Fin a) (Fin b) = fl64 (a - b)"
  by (simp add: js_sub_def)

text \<open>The rounding function without its local names, for evaluation by rewriting.\<close>

lemma fl64_unfold:
  "fl64 x =
     (if x = 0 then Fin 0
      else if pow2 1024 \<le> of_int (round_half_even (\<bar>x\<bar> / pow2 (max (exponent \<bar>x\<bar> - 52) (- 1074))))
                              * pow2 (max (exponent \<bar>x\<bar> - 52) (- 1074))
           then (if 0 < x then PInf else NInf)
           else Fin (if 0 < x
                     then of_int (round_half_even (\<bar>x\<bar> / pow2 (max (exponent \<bar>x\<bar> - 52) (- 1074))))
                              * pow2 (max (exponent \<bar>x\<bar> - 52) (- 1074))
                     else - (of_int (round_half_even (\<bar>x\<bar> / pow2 (max (exponent \<bar>x\<bar> - 52) (- 1074))))
                              * pow2 (max (exponent \<bar>x\<bar> - 52) (- 1074)))))"
  unfolding fl64_def Let_def by (rule refl)

lemmas fl64_simps = fl64_unfold exponent_def pow2_def round_half_even_def bits.simps

lemma fl64_not_NaN [simp]: "fl64 x \<noteq> NaN"
  by (simp add: fl64_def Let_def)




lemma js_le_Fin [simp]: "js_le (Fin a) (Fin b) = (a \<le> b)"
  by (auto simp: js_le_def)

lemma js_gt_Fin [simp]: "js_gt (Fin a) (Fin b) = (b < a)"
  by (simp add: js_gt_def)

lemma js_ge_Fin [simp]: "js_ge (Fin a) (Fin b) = (b \<le> a)"
  by (simp add: js_ge_def)

lemma Math_min_Fin [simp]: "Math_min (Fin a) (Fin b) = Fin (min a b)"
  by (auto simp: Math_min_def)

lemma Math_max_Fin [simp]: "Math_max (Fin a) (Fin b) = Fin (max a b)"
  by (auto simp: Math_max_def)

lemma isFinite_iff: "isFinite n \<longleftrightarrow> (\<exists>r. n = Fin r)"
  by (cases n) simp_all

lemmas js_defs = js_le_def js_ge_def js_gt_def js_sub_def Math_min_def Math_max_def or0_def

text \<open>
  The rounding at the numbers of the examples. Sums and differences of small integers are
  exact. The three decimals are read as the binary64 values named above; \<open>1.7 - 0.6\<close>
  rounds to the value of \<open>1.1\<close>, and \<open>0.6 + 1.1\<close> rounds to the binary64 value next
  above the value of \<open>1.7\<close>. The sum of 2^53 = 9007199254740992 and 1 is a tie and rounds back to 2^53.
\<close>

lemma fl64_integers:
  "fl64 0 = Fin 0" "fl64 1 = Fin 1" "fl64 2 = Fin 2" "fl64 (- 1) = Fin (- 1)" "fl64 (- 2) = Fin (- 2)"
  "fl64 100 = Fin 100" "fl64 300 = Fin 300" "fl64 800 = Fin 800" "fl64 1000 = Fin 1000"
  by (simp_all add: fl64_simps)

lemma fl64_decimals:
  "fl64 (6 / 10) = Fin dbl_0_6" "fl64 (11 / 10) = Fin dbl_1_1" "fl64 (17 / 10) = Fin dbl_1_7"
  by (simp_all add: fl64_simps dbl_0_6_def dbl_1_1_def dbl_1_7_def)

lemma fl64_remaining_1_1: "fl64 (dbl_1_7 - dbl_0_6) = Fin dbl_1_1"
  by (simp add: fl64_simps dbl_0_6_def dbl_1_1_def dbl_1_7_def)

lemma fl64_spent_above_1_7: "fl64 (dbl_0_6 + dbl_1_1) = Fin (dbl_1_7 + 1 / 2 ^ 52)"
  by (simp add: fl64_simps dbl_0_6_def dbl_1_1_def dbl_1_7_def)


lemma dbl_order: "0 < dbl_0_6" "dbl_0_6 < dbl_1_1" "dbl_1_1 < dbl_1_7" "0 < dbl_1_1"
  by (simp_all add: dbl_0_6_def dbl_1_1_def dbl_1_7_def)

lemmas example_defs = example_env_def example_voucher_def example_Number_def example_String_def
  example_numbers_def example_Date_parse_def example_row_def strip0_def is_digit_def trim_def
  is_ws_def

subsection \<open>The balance invariant\<close>

text \<open>
  Add, Toggle, Edit of a voucher that is in the fetched list, and Bulk Import keep
  \<open>0 \<le> spent \<le> value\<close>.
\<close>

lemma addVoucher_inv:
  "addVoucher env user f = Issued r \<Longrightarrow> ledger_inv (value r) (spent r)"
  unfolding addVoucher_def Let_def ledger_inv_def
  by (cases user; cases "Number env (strip0 (value_f f))";
      cases "Number env (strip0 (initialUsed_f f))")
     (auto simp: js_defs split: if_splits)

lemma toggleStatus_inv:
  "ledger_inv (value v) (spent v) \<Longrightarrow>
   ledger_inv (value (store_update (toggleStatus v) v)) (spent (store_update (toggleStatus v) v))"
  unfolding toggleStatus_def Let_def ledger_inv_def apply_patch_def upd_def store_update_def
  by (cases "value v"; cases "spent v") (auto simp: js_defs split: if_splits)

lemma saveEdit_inv:
  "ledger_inv (value v) (spent v) \<Longrightarrow> find (\<lambda>x. id_v x = id_v item) list = Some v \<Longrightarrow>
   ledger_inv (value (store_update (saveEdit env list (Some item) form) v))
              (spent (store_update (saveEdit env list (Some item) form) v))"
  unfolding saveEdit_def Let_def ledger_inv_def apply_patch_def upd_def store_update_def
  by (cases "Number env (strip0 (value_e form))"; cases "value v"; cases "spent v")
     (auto simp: js_defs split: if_splits)

lemma import_row_inv:
  "js_gt (value (import_row env uid r)) (Fin 0) \<Longrightarrow>
   ledger_inv (value (import_row env uid r)) (spent (import_row env uid r))"
  unfolding import_row_def Let_def ledger_inv_def toNum_def
  by (cases "Number env (strip0 (String_cell env (map_of r ''value'')))";
      cases "Number env (strip0 (String_cell env
               (if truthy_cell (map_of r ''spent'') then map_of r ''spent''
                else Some (CNum (Fin 0)))))")
     (auto simp: js_defs split: if_splits)

lemma importExcel_inv:
  "importExcel env user rows = Issued payload \<Longrightarrow> r \<in> set payload \<Longrightarrow>
   ledger_inv (value r) (spent r)"
  unfolding importExcel_def import_payload_def Let_def
  by (cases user) (auto split: if_splits simp: import_row_inv)

lemma example_add:
  "addVoucher (example_env 0 0) (Some ''u1'') example_add_form =
     Issued (example_row ''Amazon'' (Fin 1000) (Fin 0) unused)"
  by (simp add: addVoucher_def example_add_form_def example_defs js_defs or_null_def)

text \<open>
  Partial Use compares the amount with the rounded difference \<open>value - spent\<close> and then
  writes the rounded sum \<open>spent + amount\<close>.
\<close>

lemma savePartialUsage_accepts:
  assumes "value v = Fin a" and "spent v = Fin b" and "Number env (strip0 amount) = Fin x"
    and "0 < x" and "js_le (Fin x) (fl64 (a - b))"
  shows "savePartialUsage env (Some v) amount =
           Issued (id_v v,
             \<lparr> name_upd = None, value_upd = None, category_upd = None, code_upd = None,
               pin_upd = None, expires_on_upd = None, spent_upd = Some (fl64 (b + x)),
               status_upd = Some (if js_ge (fl64 (b + x)) (Fin a) then used else unused) \<rparr>)"
  using assms by (simp add: savePartialUsage_def Let_def js_le_def js_gt_def)

text \<open>
  Edit of a voucher that is not in the fetched list writes the new value and neither
  \<open>spent\<close> nor \<open>status\<close>.
\<close>

lemma saveEdit_None:
  assumes "trim (name_e form) \<noteq> []"
    and "isFinite (Number env (strip0 (value_e form)))"
    and "js_gt (Number env (strip0 (value_e form))) (Fin 0)"
    and "find (\<lambda>x. id_v x = id_v item) list = None"
  shows "saveEdit env list (Some item) form =
           Issued (id_v item,
             \<lparr> name_upd = Some (trim (name_e form)),
               value_upd = Some (Number env (strip0 (value_e form))),
               category_upd = Some (category_e form),
               code_upd = Some (or_null (trim (code_e form))),
               pin_upd = Some (or_null (trim (pin_e form))),
               expires_on_upd = Some (or_null (expires_on_e form)),
               spent_upd = None, status_upd = None \<rparr>)"
proof -
  from assms(2) obtain n where n: "Number env (strip0 (value_e form)) = Fin n"
    by (auto simp: isFinite_iff)
  with assms(3) have "0 < n"
    by simp
  then show ?thesis
    using assms(1,4) n by (simp add: saveEdit_def Let_def)
qed

text \<open>
  C1. Two mutations write a row with \<open>spent > value\<close> on a voucher that satisfied
  \<open>0 \<le> spent \<le> value\<close>. Partial Use accepts an amount \<open>x\<close> that is at most the
  rounded difference \<open>value - spent\<close> and writes the rounded sum \<open>spent + x\<close>, which can
  be above \<open>value\<close>: with value 1.7 and spent 0.6 the difference rounds to 1.1, the amount
  1.1 is accepted, and the sum rounds to 1.7000000000000002. Edit of a voucher that is not
  in the fetched list writes the new value and leaves \<open>spent\<close> as it is stored: value 500
  beside spent 700. Add, Toggle, Edit of a voucher that is in the fetched list, and Bulk
  Import keep the invariant (the lemmas above).
\<close>

theorem ledger_invariant_violated:
  "(value v = Fin a \<and> spent v = Fin b \<and> Number env (strip0 amount) = Fin x \<and> 0 < x
      \<and> js_le (Fin x) (fl64 (a - b)) \<longrightarrow>
        store_update (savePartialUsage env (Some v) amount) v
          = v\<lparr> spent := fl64 (b + x),
                status := (if js_ge (fl64 (b + x)) (Fin a) then used else unused) \<rparr>)
   \<and> (trim (name_e form) \<noteq> [] \<and> isFinite (Number env (strip0 (value_e form)))
      \<and> js_gt (Number env (strip0 (value_e form))) (Fin 0)
      \<and> find (\<lambda>x. id_v x = id_v item) list = None \<and> id_v w = id_v item \<longrightarrow>
        value (store_update (saveEdit env list (Some item) form) w)
          = Number env (strip0 (value_e form))
        \<and> spent (store_update (saveEdit env list (Some item) form) w) = spent w)"
proof (intro conjI impI)
  assume "value v = Fin a \<and> spent v = Fin b \<and> Number env (strip0 amount) = Fin x \<and> 0 < x
      \<and> js_le (Fin x) (fl64 (a - b))"
  then show "store_update (savePartialUsage env (Some v) amount) v
          = v\<lparr> spent := fl64 (b + x),
                status := (if js_ge (fl64 (b + x)) (Fin a) then used else unused) \<rparr>"
    by (simp add: savePartialUsage_accepts store_update_def apply_patch_def upd_def)
next
  assume h: "trim (name_e form) \<noteq> [] \<and> isFinite (Number env (strip0 (value_e form)))
      \<and> js_gt (Number env (strip0 (value_e form))) (Fin 0)
      \<and> find (\<lambda>x. id_v x = id_v item) list = None \<and> id_v w = id_v item"
  then show "value (store_update (saveEdit env list (Some item) form) w)
          = Number env (strip0 (value_e form))"
    by (simp add: saveEdit_None store_update_def apply_patch_def upd_def)
  from h show "spent (store_update (saveEdit env list (Some item) form) w) = spent w"
    by (simp add: saveEdit_None store_update_def apply_patch_def upd_def)
qed

theorem ledger_invariant_violated_witness:
  "ledger_inv (value (example_voucher (Fin dbl_1_7) (Fin dbl_0_6) unused))
              (spent (example_voucher (Fin dbl_1_7) (Fin dbl_0_6) unused))
   \<and> Number (example_env 0 0) (strip0 ''1.1'') = Fin dbl_1_1
   \<and> 0 < dbl_1_1
   \<and> js_le (Fin dbl_1_1) (fl64 (dbl_1_7 - dbl_0_6))
   \<and> store_update (savePartialUsage (example_env 0 0)
         (Some (example_voucher (Fin dbl_1_7) (Fin dbl_0_6) unused)) ''1.1'')
         (example_voucher (Fin dbl_1_7) (Fin dbl_0_6) unused)
       = example_voucher (Fin dbl_1_7) (Fin (dbl_1_7 + 1 / 2 ^ 52)) used
   \<and> js_gt (Fin (dbl_1_7 + 1 / 2 ^ 52)) (Fin dbl_1_7)
   \<and> \<not> ledger_inv (Fin dbl_1_7) (Fin (dbl_1_7 + 1 / 2 ^ 52))
   \<and> ledger_inv (value (example_voucher (Fin 1000) (Fin 700) unused))
                  (spent (example_voucher (Fin 1000) (Fin 700) unused))
   \<and> trim (name_e (example_edit_form ''500'')) \<noteq> []
   \<and> Number (example_env 0 0) (strip0 (value_e (example_edit_form ''500''))) = Fin 500
   \<and> find (\<lambda>x. id_v x = id_v (example_voucher (Fin 1000) (Fin 700) unused)) [example_zero] = None
   \<and> store_update (saveEdit (example_env 0 0) [example_zero]
         (Some (example_voucher (Fin 1000) (Fin 700) unused)) (example_edit_form ''500''))
         (example_voucher (Fin 1000) (Fin 700) unused)
       = example_voucher (Fin 500) (Fin 700) unused
   \<and> \<not> ledger_inv (Fin 500) (Fin 700)"
  using ledger_invariant_violated [where env = "example_env 0 0"
          and v = "example_voucher (Fin dbl_1_7) (Fin dbl_0_6) unused"
          and a = dbl_1_7 and b = dbl_0_6 and x = dbl_1_1 and amount = "''1.1''"
          and form = "example_edit_form ''500''"
          and item = "example_voucher (Fin 1000) (Fin 700) unused"
          and w = "example_voucher (Fin 1000) (Fin 700) unused"
          and list = "[example_zero]"]
        dbl_order
  by (simp add: ledger_inv_def fl64_remaining_1_1 fl64_spent_above_1_7 example_zero_def
        example_edit_form_def saveEdit_def store_update_def apply_patch_def upd_def or_null_def
        Let_def example_defs)

subsection \<open>Partial use\<close>




subsection \<open>Toggle\<close>

text \<open>
  C4, as the code has it. One toggle of a voucher stored as \<open>unused\<close> writes
  \<open>spent = value\<close> and \<open>used\<close>; of a voucher stored as \<open>used\<close> it writes
  \<open>spent = 0\<close> and \<open>unused\<close>. Two toggles restore the stored status; they leave
  \<open>spent = 0\<close> on a voucher that was \<open>unused\<close> and \<open>spent = value\<close> on one that was
  \<open>used\<close>, which is the earlier \<open>spent\<close> only when the voucher was at that extreme.
\<close>

theorem toggle_twice:
  "(status v = unused \<longrightarrow> spent (toggle v) = value v \<and> status (toggle v) = used)
   \<and> (status v = used \<longrightarrow> spent (toggle v) = Fin 0 \<and> status (toggle v) = unused)
   \<and> (status v \<noteq> expired \<longrightarrow> status (toggle (toggle v)) = status v)
   \<and> (status v = unused \<longrightarrow> spent (toggle (toggle v)) = Fin 0)
   \<and> (status v = used \<longrightarrow> spent (toggle (toggle v)) = value v)"
  by (cases "status v")
     (simp_all add: toggle_def toggleStatus_def store_update_def apply_patch_def upd_def)

theorem toggle_twice_witness:
  "status (example_voucher (Fin 1000) (Fin 0) unused) = unused
   \<and> toggle (example_voucher (Fin 1000) (Fin 0) unused)
       = example_voucher (Fin 1000) (Fin 1000) used
   \<and> toggle (toggle (example_voucher (Fin 1000) (Fin 0) unused))
       = example_voucher (Fin 1000) (Fin 0) unused
   \<and> status (example_voucher (Fin 1000) (Fin 1000) used) = used
   \<and> toggle (example_voucher (Fin 1000) (Fin 1000) used)
       = example_voucher (Fin 1000) (Fin 0) unused
   \<and> spent (toggle (toggle (example_voucher (Fin 1000) (Fin 1000) used))) = Fin 1000"
  using toggle_twice [of "example_voucher (Fin 1000) (Fin 0) unused"]
        toggle_twice [of "example_voucher (Fin 1000) (Fin 1000) used"]
  by (simp add: toggle_def toggleStatus_def store_update_def apply_patch_def upd_def
        example_voucher_def)

text \<open>Two toggles of an unused voucher with 200 of 1000 spent leave \<open>spent = 0\<close>.\<close>

theorem toggle_twice_counterexample:
  "spent (toggle (toggle (example_voucher (Fin 1000) (Fin 200) unused)))
     \<noteq> spent (example_voucher (Fin 1000) (Fin 200) unused)"
  by (simp add: toggle_def toggleStatus_def store_update_def apply_patch_def upd_def
        example_voucher_def)

subsection \<open>Edit\<close>

lemma find_id_v: "find (\<lambda>x. id_v x = i) list = Some cur \<Longrightarrow> id_v cur = i"
  by (auto simp: find_Some_iff)

text \<open>
  Edit with a name that is not blank and a new value \<open>value' > 0\<close>, of a voucher found in
  the fetched list: the row gets \<open>value'\<close> and \<open>spent' = min(spent, value')\<close>, so
  \<open>spent' = value'\<close> when \<open>value' < spent\<close>, and \<open>spent'\<close> is never above the earlier
  \<open>spent\<close>; the status is \<open>used\<close> if \<open>spent' \<ge> value'\<close> and the stored status otherwise.
\<close>

lemma saveEdit_clamps:
  assumes "trim (name_e editForm) \<noteq> []"
    and "isFinite (Number env (strip0 (value_e editForm)))"
    and "js_gt (Number env (strip0 (value_e editForm))) (Fin 0)"
    and "find (\<lambda>x. id_v x = id_v item) list = Some cur"
  shows "(\<exists>p. saveEdit env list (Some item) editForm = Issued (id_v cur, p))
       \<and> value (store_update (saveEdit env list (Some item) editForm) cur)
           = Number env (strip0 (value_e editForm))
       \<and> spent (store_update (saveEdit env list (Some item) editForm) cur)
           = Math_min (or0 (spent cur)) (Number env (strip0 (value_e editForm)))
       \<and> (js_lt (Number env (strip0 (value_e editForm))) (spent cur) \<longrightarrow>
            spent (store_update (saveEdit env list (Some item) editForm) cur)
              = Number env (strip0 (value_e editForm)))
       \<and> (spent cur \<noteq> NaN \<longrightarrow>
            js_le (spent (store_update (saveEdit env list (Some item) editForm) cur)) (spent cur))
       \<and> status (store_update (saveEdit env list (Some item) editForm) cur)
           = (if js_ge (spent (store_update (saveEdit env list (Some item) editForm) cur))
                       (Number env (strip0 (value_e editForm)))
              then used else status cur)"
proof -
  from assms(4) have same: "id_v cur = id_v item"
    by (rule find_id_v)
  show ?thesis
    using assms same
    unfolding saveEdit_def Let_def apply_patch_def upd_def store_update_def
    by (cases "Number env (strip0 (value_e editForm))"; cases "spent cur")
       (auto simp: js_defs split: if_splits)
qed

lemma saveEdit_clamps_example:
  "store_update (saveEdit (example_env 0 0) [example_voucher (Fin 1000) (Fin 700) unused]
          (Some (example_voucher (Fin 1000) (Fin 700) unused)) (example_edit_form ''500''))
          (example_voucher (Fin 1000) (Fin 700) unused)
       = example_voucher (Fin 500) (Fin 500) used"
  by (simp add: example_defs example_edit_form_def saveEdit_def Let_def store_update_def
        apply_patch_def upd_def or_null_def)

text \<open>
  C5. The clamp is applied only to a voucher that \<open>saveEdit\<close> finds in the fetched
  list. When the edited voucher is not in that list, Edit with a name that is not blank
  and a new value \<open>value' > 0\<close> issues an update that carries neither \<open>spent\<close> nor
  \<open>status\<close>: the row gets \<open>value'\<close> and keeps its \<open>spent\<close> and its status, also when
  \<open>value'\<close> is lower than \<open>spent\<close>. Editing \<open>{value: 1000, spent: 700}\<close> to value
  500 then leaves \<open>{value: 500, spent: 700, status: unused}\<close>.
\<close>

theorem saveEdit_not_found:
  assumes "trim (name_e editForm) \<noteq> []"
    and "isFinite (Number env (strip0 (value_e editForm)))"
    and "js_gt (Number env (strip0 (value_e editForm))) (Fin 0)"
    and "find (\<lambda>x. id_v x = id_v item) list = None"
    and "id_v v = id_v item"
  shows "(\<exists>p. saveEdit env list (Some item) editForm = Issued (id_v v, p)
              \<and> spent_upd p = None \<and> status_upd p = None)
       \<and> value (store_update (saveEdit env list (Some item) editForm) v)
           = Number env (strip0 (value_e editForm))
       \<and> spent (store_update (saveEdit env list (Some item) editForm) v) = spent v
       \<and> status (store_update (saveEdit env list (Some item) editForm) v) = status v"
  using assms by (simp add: saveEdit_None store_update_def apply_patch_def upd_def)

theorem saveEdit_not_found_witness:
  "trim (name_e (example_edit_form ''500'')) \<noteq> []
   \<and> isFinite (Number (example_env 0 0) (strip0 (value_e (example_edit_form ''500''))))
   \<and> js_gt (Number (example_env 0 0) (strip0 (value_e (example_edit_form ''500'')))) (Fin 0)
   \<and> find (\<lambda>x. id_v x = id_v (example_voucher (Fin 1000) (Fin 700) unused)) [example_zero] = None
   \<and> js_lt (Number (example_env 0 0) (strip0 (value_e (example_edit_form ''500''))))
        (spent (example_voucher (Fin 1000) (Fin 700) unused))
   \<and> store_update (saveEdit (example_env 0 0) [example_zero]
          (Some (example_voucher (Fin 1000) (Fin 700) unused)) (example_edit_form ''500''))
          (example_voucher (Fin 1000) (Fin 700) unused)
       = example_voucher (Fin 500) (Fin 700) unused
   \<and> example_voucher (Fin 500) (Fin 700) unused \<noteq> example_voucher (Fin 500) (Fin 500) used
   \<and> js_gt (spent (example_voucher (Fin 500) (Fin 700) unused))
           (value (example_voucher (Fin 500) (Fin 700) unused))"
  using saveEdit_not_found [where env = "example_env 0 0"
          and editForm = "example_edit_form ''500''"
          and item = "example_voucher (Fin 1000) (Fin 700) unused"
          and list = "[example_zero]"
          and v = "example_voucher (Fin 1000) (Fin 700) unused"]
  by (simp add: example_defs example_zero_def example_edit_form_def saveEdit_def Let_def
        store_update_def apply_patch_def upd_def or_null_def)

text \<open>
  C10. Edit does not tie the status to the balance: when the clamped \<open>spent\<close> is strictly
  below the new value, the stored status is kept, so a voucher stored as \<open>used\<close> stays
  \<open>used\<close> with \<open>spent < value\<close>.
\<close>

theorem saveEdit_keeps_status:
  assumes "trim (name_e editForm) \<noteq> []"
    and "isFinite (Number env (strip0 (value_e editForm)))"
    and "js_gt (Number env (strip0 (value_e editForm))) (Fin 0)"
    and "find (\<lambda>x. id_v x = id_v item) list = Some cur"
    and "js_lt (Math_min (or0 (spent cur)) (Number env (strip0 (value_e editForm))))
               (Number env (strip0 (value_e editForm)))"
  shows "status (store_update (saveEdit env list (Some item) editForm) cur) = status cur
       \<and> js_lt (spent (store_update (saveEdit env list (Some item) editForm) cur))
               (value (store_update (saveEdit env list (Some item) editForm) cur))"
proof -
  from assms(4) have same: "id_v cur = id_v item"
    by (rule find_id_v)
  show ?thesis
    using assms same
    unfolding saveEdit_def Let_def apply_patch_def upd_def store_update_def
    by (cases "Number env (strip0 (value_e editForm))"; cases "spent cur")
       (auto simp: js_defs split: if_splits)
qed

theorem saveEdit_keeps_status_witness:
  "trim (name_e (example_edit_form ''1000'')) \<noteq> []
   \<and> isFinite (Number (example_env 0 0) (strip0 (value_e (example_edit_form ''1000''))))
   \<and> js_gt (Number (example_env 0 0) (strip0 (value_e (example_edit_form ''1000'')))) (Fin 0)
   \<and> find (\<lambda>x. id_v x = id_v (example_voucher (Fin 500) (Fin 500) used))
        [example_voucher (Fin 500) (Fin 500) used]
       = Some (example_voucher (Fin 500) (Fin 500) used)
   \<and> js_lt (Math_min (or0 (spent (example_voucher (Fin 500) (Fin 500) used)))
                (Number (example_env 0 0) (strip0 (value_e (example_edit_form ''1000'')))))
           (Number (example_env 0 0) (strip0 (value_e (example_edit_form ''1000''))))
   \<and> store_update (saveEdit (example_env 0 0) [example_voucher (Fin 500) (Fin 500) used]
          (Some (example_voucher (Fin 500) (Fin 500) used)) (example_edit_form ''1000''))
          (example_voucher (Fin 500) (Fin 500) used)
       = example_voucher (Fin 1000) (Fin 500) used
   \<and> status (example_voucher (Fin 1000) (Fin 500) used) = used
   \<and> js_lt (spent (example_voucher (Fin 1000) (Fin 500) used))
           (value (example_voucher (Fin 1000) (Fin 500) used))"
  using saveEdit_keeps_status [where env = "example_env 0 0"
          and editForm = "example_edit_form ''1000''"
          and item = "example_voucher (Fin 500) (Fin 500) used"
          and list = "[example_voucher (Fin 500) (Fin 500) used]"
          and cur = "example_voucher (Fin 500) (Fin 500) used"]
  by (simp add: example_defs example_edit_form_def saveEdit_def Let_def store_update_def
        apply_patch_def upd_def or_null_def)

subsection \<open>Status derivation\<close>

lemma deriveStatus_expired_iff:
  assumes "status v \<noteq> expired"
  shows "deriveStatus env v = expired \<longleftrightarrow>
           (\<exists>s t. expires_on v = Some s \<and> s \<noteq> [] \<and> Date_parse env s = Some t
                  \<and> setHours_23_59_59_999 (LocalTZA env) t < Date_now env)"
  using assms by (auto simp: deriveStatus_def split: option.splits)

lemma deriveStatus_otherwise:
  "deriveStatus env v \<noteq> expired \<Longrightarrow> deriveStatus env v = status v"
  by (auto simp: deriveStatus_def split: option.splits if_splits)

lemma setHours_east_of_UTC:
  assumes "0 \<le> tza" and "tza < msPerDay"
  shows "setHours_23_59_59_999 tza (day * msPerDay) = end_of_local_day tza day"
proof -
  have "(day * msPerDay + tza) div msPerDay = day"
    using assms by (simp add: msPerDay_def div_pos_pos_trivial)
  then show ?thesis
    by (simp add: setHours_23_59_59_999_def end_of_local_day_def)
qed

lemma setHours_west_of_UTC:
  assumes "tza < 0" and "- msPerDay \<le> tza"
  shows "setHours_23_59_59_999 tza (day * msPerDay) = end_of_local_day tza (day - 1)"
proof -
  have "(day * msPerDay + tza) div msPerDay = ((msPerDay + tza) + (day - 1) * msPerDay) div msPerDay"
    by (simp add: algebra_simps)
  also have "\<dots> = (msPerDay + tza) div msPerDay + (day - 1)"
    by (simp add: msPerDay_def)
  also have "(msPerDay + tza) div msPerDay = 0"
    using assms by (simp add: msPerDay_def div_pos_pos_trivial)
  finally have "(day * msPerDay + tza) div msPerDay = day - 1"
    by simp
  then show ?thesis
    by (simp add: setHours_23_59_59_999_def end_of_local_day_def)
qed

text \<open>
  C2. \<open>deriveStatus\<close> is a function of the voucher, the instant and the environment,
  and writes nothing. It returns \<open>expired\<close> when \<open>now\<close> is after 23:59:59.999 of the
  local day that contains the parsed time value, and the stored status otherwise
  (\<open>deriveStatus_expired_iff\<close>, \<open>deriveStatus_otherwise\<close>). A date without a time,
  such as \<open>2025-01-01\<close>, is read as midnight UTC. East of UTC that instant lies in the
  same local day, and the end of that day is the end of the expiry date
  (\<open>setHours_east_of_UTC\<close>); west of UTC it lies in the day before
  (\<open>setHours_west_of_UTC\<close>). So at UTC-5 a voucher that expires on 2025-01-01 is
  already \<open>expired\<close> at local noon of 2025-01-01, before the end of that day.
\<close>

theorem deriveStatus_west_of_UTC:
  "Date_parse (example_env (- 18000000) 1735750800000) ''2025-01-01'' = Some (20089 * msPerDay)
   \<and> Date_now (example_env (- 18000000) 1735750800000)
       < end_of_local_day (LocalTZA (example_env (- 18000000) 1735750800000)) 20089
   \<and> deriveStatus (example_env (- 18000000) 1735750800000)
        ((example_voucher (Fin 1000) (Fin 0) unused)\<lparr> expires_on := Some ''2025-01-01'' \<rparr>)
       = expired"
  by (simp add: deriveStatus_def setHours_23_59_59_999_def end_of_local_day_def msPerDay_def
        example_env_def example_voucher_def example_Date_parse_def)

text \<open>The same voucher at the same instant at UTC+5:30 is not expired.\<close>

lemma deriveStatus_east_example:
  "deriveStatus (example_env 19800000 1735750800000)
        ((example_voucher (Fin 1000) (Fin 0) unused)\<lparr> expires_on := Some ''2025-01-01'' \<rparr>)
       = unused"
  by (simp add: deriveStatus_def setHours_23_59_59_999_def end_of_local_day_def msPerDay_def
        example_env_def example_voucher_def example_Date_parse_def)

text \<open>
  At or east of UTC, on a voucher whose expiry is a date without a time, \<open>deriveStatus\<close>
  is the derived status as specified.
\<close>

lemma deriveStatus_spec_derive:
  assumes "east_of_UTC env" and "date_only env v"
  shows "deriveStatus env v = spec_derive env v"
proof (cases "expires_on v")
  case None
  then show ?thesis by (simp add: deriveStatus_def spec_derive_def)
next
  case (Some s)
  show ?thesis
  proof (cases "Date_parse env s")
    case None
    then show ?thesis
      using Some by (simp add: deriveStatus_def spec_derive_def expiry_day_def)
  next
    case (Some t)
    with \<open>expires_on v = Some s\<close> assms(2) have s: "s \<noteq> []" and t: "t mod msPerDay = 0"
      by (simp_all add: date_only_def)
    from t have "t = (t div msPerDay) * msPerDay"
      by (simp add: mod_eq_0_iff_dvd)
    then have "setHours_23_59_59_999 (LocalTZA env) t
               = end_of_local_day (LocalTZA env) (t div msPerDay)"
      using setHours_east_of_UTC [of "LocalTZA env" "t div msPerDay"] assms(1)
      by (simp add: east_of_UTC_def)
    then show ?thesis
      using \<open>expires_on v = Some s\<close> Some s
      by (simp add: deriveStatus_def spec_derive_def expiry_day_def)
  qed
qed

text \<open>
  At UTC-5, at local noon of 2025-01-01, the derived status as specified of an unused
  voucher that expires on 2025-01-01 is \<open>unused\<close>.
\<close>

lemma spec_derive_west_example:
  "spec_derive (example_env (- 18000000) 1735750800000)
        ((example_voucher (Fin 1000) (Fin 0) unused)\<lparr> expires_on := Some ''2025-01-01'' \<rparr>)
       = unused"
  by (simp add: spec_derive_def expiry_day_def end_of_local_day_def msPerDay_def
        example_env_def example_voucher_def example_Date_parse_def)

subsection \<open>Bulk import\<close>

lemma toNum_finite: "isFinite (toNum env c)"
  by (simp add: toNum_def Let_def)

lemma toNum_cases:
  "toNum env c = (if isFinite (Number env (strip0 (String_cell env c)))
                  then Number env (strip0 (String_cell env c)) else Fin 0)"
  by (simp add: toNum_def Let_def)

lemma import_row_value: "value (import_row env uid r) = toNum env (map_of r ''value'')"
  by (simp add: import_row_def Let_def)

lemma import_row_name:
  "name (import_row env uid r) =
     trim (if truthy_cell (map_of r ''name'') then String_cell env (map_of r ''name'') else [])"
  by (simp add: import_row_def Let_def)

lemma import_row_text:
  "user_id (import_row env uid r) = Some uid"
  "name (import_row env uid r) = trim (text_or env (map_of r ''name'') [])"
  "category (import_row env uid r) = text_or env (map_of r ''category'') ''General''"
  "code (import_row env uid r) = text_or_null env (map_of r ''code'')"
  "pin (import_row env uid r) = text_or_null env (map_of r ''pin'')"
  "expires_on (import_row env uid r) = text_or_null env (map_of r ''expires_on'')"
  by (simp_all add: import_row_def Let_def text_or_def text_or_null_def)

lemma import_row_spent:
  "(js_le (Fin 0) (toNum env (map_of r ''value'')) \<longrightarrow>
      spent (import_row env uid r)
        = spec_clamp (Fin 0) (toNum env (map_of r ''value'')) (toNum env (spent_cell r)))
   \<and> (js_lt (toNum env (map_of r ''value'')) (Fin 0) \<longrightarrow>
      spent (import_row env uid r) = toNum env (map_of r ''value''))"
proof -
  obtain a where a: "toNum env (map_of r ''value'') = Fin a"
    using toNum_finite [of env "map_of r ''value''"] by (auto simp: isFinite_iff)
  obtain b where b: "toNum env (spent_cell r) = Fin b"
    using toNum_finite [of env "spent_cell r"] by (auto simp: isFinite_iff)
  have "spent (import_row env uid r) = Fin (min (max 0 b) a)"
    using a b by (simp add: import_row_def Let_def spent_cell_def)
  then show ?thesis
    by (auto simp: a b spec_clamp_def)
qed

lemma import_row_status:
  "status (import_row env uid r) =
     (if js_ge (spent (import_row env uid r)) (value (import_row env uid r)) then used else unused)"
proof -
  obtain a where a: "toNum env (map_of r ''value'') = Fin a"
    using toNum_finite [of env "map_of r ''value''"] by (auto simp: isFinite_iff)
  obtain b where b: "toNum env (if truthy_cell (map_of r ''spent'') then map_of r ''spent''
                                else Some (CNum (Fin 0))) = Fin b"
    using toNum_finite [of env "if truthy_cell (map_of r ''spent'') then map_of r ''spent''
                                else Some (CNum (Fin 0))"] by (auto simp: isFinite_iff)
  show ?thesis
    by (simp add: import_row_def Let_def a b)
qed

lemma row_dropped_iff:
  "row_dropped env r \<longleftrightarrow>
     \<not> (name (import_row env uid r) \<noteq> [] \<and> js_gt (value (import_row env uid r)) (Fin 0))"
proof -
  obtain a where a: "toNum env (map_of r ''value'') = Fin a"
    using toNum_finite [of env "map_of r ''value''"] by (auto simp: isFinite_iff)
  show ?thesis
    by (auto simp: row_dropped_def import_row_name import_row_value a)
qed

lemma import_payload_eq:
  "import_payload env uid rows =
     map (import_row env uid) (filter (\<lambda>r. \<not> row_dropped env r) rows)"
  by (simp add: import_payload_def filter_map comp_def row_dropped_iff [of env _ uid])

lemma importExcel_batch:
  "importExcel env (Some uid) rows =
     (if \<forall>r \<in> set rows. row_dropped env r then Alert No_valid_rows_found
      else Issued (map (import_row env uid) (filter (\<lambda>r. \<not> row_dropped env r) rows)))"
  by (simp add: importExcel_def Let_def import_payload_eq filter_empty_conv)

text \<open>
  C6. Bulk Import. A numeric field is the number \<open>Number\<close> reads from the cell when that
  is finite and 0 otherwise. Each field of the row that is built comes from its cell: the
  name is the trimmed text of the name cell, the value is the number of the value cell,
  \<open>spent\<close> is the number of the spent cell (0 when the cell is empty) clamped into
  \<open>[0, value]\<close>, the category is the text of its cell or \<open>General\<close>, and code, pin and
  expiry are the text of their cells or absent. The status is \<open>used\<close> if
  \<open>spent \<ge> value\<close> and \<open>unused\<close> otherwise; the status cell is not read. The rows
  with an empty trimmed name or a value that is not positive are dropped and the others
  are inserted by one request, in their order; when every row is dropped the import alerts
  and writes nothing.
\<close>

theorem importExcel_rows:
  "isFinite (toNum env c)
   \<and> (isFinite (Number env (strip0 (String_cell env c))) \<longrightarrow>
        toNum env c = Number env (strip0 (String_cell env c)))
   \<and> (\<not> isFinite (Number env (strip0 (String_cell env c))) \<longrightarrow> toNum env c = Fin 0)
   \<and> user_id (import_row env uid r) = Some uid
   \<and> name (import_row env uid r) = trim (text_or env (map_of r ''name'') [])
   \<and> value (import_row env uid r) = toNum env (map_of r ''value'')
   \<and> (js_le (Fin 0) (value (import_row env uid r)) \<longrightarrow>
        spent (import_row env uid r)
          = spec_clamp (Fin 0) (value (import_row env uid r)) (toNum env (spent_cell r)))
   \<and> (js_lt (value (import_row env uid r)) (Fin 0) \<longrightarrow>
        spent (import_row env uid r) = value (import_row env uid r))
   \<and> (js_le (Fin 0) (value (import_row env uid r)) \<longrightarrow>
        ledger_inv (value (import_row env uid r)) (spent (import_row env uid r)))
   \<and> category (import_row env uid r) = text_or env (map_of r ''category'') ''General''
   \<and> code (import_row env uid r) = text_or_null env (map_of r ''code'')
   \<and> pin (import_row env uid r) = text_or_null env (map_of r ''pin'')
   \<and> expires_on (import_row env uid r) = text_or_null env (map_of r ''expires_on'')
   \<and> status (import_row env uid r) =
        (if js_ge (spent (import_row env uid r)) (value (import_row env uid r))
         then used else unused)
   \<and> importExcel env (Some uid) rows =
        (if \<forall>r \<in> set rows. row_dropped env r then Alert No_valid_rows_found
         else Issued (map (import_row env uid) (filter (\<lambda>r. \<not> row_dropped env r) rows)))"
proof -
  have inv: "js_le (Fin 0) (value (import_row env uid r)) \<longrightarrow>
        ledger_inv (value (import_row env uid r)) (spent (import_row env uid r))"
  proof -
    obtain a where a: "toNum env (map_of r ''value'') = Fin a"
      using toNum_finite [of env "map_of r ''value''"] by (auto simp: isFinite_iff)
    obtain b where b: "toNum env (if truthy_cell (map_of r ''spent'') then map_of r ''spent''
                                  else Some (CNum (Fin 0))) = Fin b"
      using toNum_finite [of env "if truthy_cell (map_of r ''spent'') then map_of r ''spent''
                                  else Some (CNum (Fin 0))"] by (auto simp: isFinite_iff)
    show ?thesis
      by (simp add: import_row_def Let_def a b ledger_inv_def)
  qed
  have sp: "(js_le (Fin 0) (value (import_row env uid r)) \<longrightarrow>
        spent (import_row env uid r)
          = spec_clamp (Fin 0) (value (import_row env uid r)) (toNum env (spent_cell r)))
     \<and> (js_lt (value (import_row env uid r)) (Fin 0) \<longrightarrow>
        spent (import_row env uid r) = value (import_row env uid r))"
    using import_row_spent [of env r uid] by (simp only: import_row_value)
  show ?thesis
    using inv sp toNum_finite [of env c] toNum_cases [of env c] import_row_value [of env uid r]
      import_row_text [of env uid r] import_row_status [of env uid r]
      importExcel_batch [of env uid rows]
    by simp
qed

theorem importExcel_rows_witness:
  "row_dropped (example_env 0 0) (example_import_rows ! 0)
   \<and> row_dropped (example_env 0 0) (example_import_rows ! 1)
   \<and> \<not> row_dropped (example_env 0 0) (example_import_rows ! 2)
   \<and> \<not> row_dropped (example_env 0 0) (example_import_rows ! 3)
   \<and> js_le (Fin 0) (value (import_row (example_env 0 0) ''u1'' (example_import_rows ! 2)))
   \<and> spec_clamp (Fin 0) (Fin 300) (toNum (example_env 0 0) (spent_cell (example_import_rows ! 2)))
       = Fin 300
   \<and> import_row (example_env 0 0) ''u1'' (example_import_rows ! 2)
       = example_row ''Gift'' (Fin 300) (Fin 300) used
   \<and> js_le (Fin 0) (value (import_row (example_env 0 0) ''u1'' (example_import_rows ! 3)))
   \<and> spec_clamp (Fin 0) (Fin 300) (toNum (example_env 0 0) (spent_cell (example_import_rows ! 3)))
       = Fin 100
   \<and> import_row (example_env 0 0) ''u1'' (example_import_rows ! 3)
       = \<lparr> user_id = Some ''u1'', name = ''Card'', value = Fin 300, spent = Fin 100,
           category = ''Food'', code = Some ''X1'', pin = None,
           expires_on = Some ''2025-01-01'', status = unused \<rparr>
   \<and> importExcel (example_env 0 0) (Some ''u1'') example_import_rows
       = Issued [example_row ''Gift'' (Fin 300) (Fin 300) used,
                 \<lparr> user_id = Some ''u1'', name = ''Card'', value = Fin 300, spent = Fin 100,
                   category = ''Food'', code = Some ''X1'', pin = None,
                   expires_on = Some ''2025-01-01'', status = unused \<rparr>]
   \<and> importExcel (example_env 0 0) (Some ''u1'') (take 2 example_import_rows)
       = Alert No_valid_rows_found
   \<and> \<not> isFinite (Number (example_env 0 0) (strip0 (String_cell (example_env 0 0)
            (Some (CStr ''abc'')))))
   \<and> toNum (example_env 0 0) (Some (CStr ''abc'')) = Fin 0"
  using importExcel_rows [where env = "example_env 0 0" and uid = "''u1''"
          and rows = example_import_rows and r = "example_import_rows ! 2"
          and c = "Some (CNum (Fin 300))"]
        importExcel_rows [where env = "example_env 0 0" and uid = "''u1''"
          and rows = "take 2 example_import_rows" and r = "example_import_rows ! 3"
          and c = "Some (CStr ''abc'')"]
  by (simp add: row_dropped_def import_row_def toNum_def Let_def example_import_rows_def
        spec_clamp_def spent_cell_def text_or_def text_or_null_def example_defs)

subsection \<open>Export\<close>

lemma export_headers_nonempty:
  "list \<noteq> [] \<Longrightarrow> export_headers (map (export_row env) list) = export_columns"
  by (cases list) (simp_all add: export_headers_def export_row_def export_columns_def)



lemma exportExcel_nonempty:
  "list \<noteq> [] \<Longrightarrow>
   exportExcel env list =
     header_cells export_columns # map (\<lambda>v. map (\<lambda>h. map_of (export_row env v) h) export_columns) list"
  by (simp add: exportExcel_def Let_def export_headers_nonempty header_cells_def comp_def)




subsection \<open>List projection\<close>

lemma str_includes_sublist: "str_includes s t \<longleftrightarrow> sublist t s"
  by (induction s) (simp_all add: sublist_Cons_right)

lemma toLowerCase_Nil_iff: "toLowerCase s = [] \<longleftrightarrow> s = []"
  by (simp add: toLowerCase_def)

lemma inSearch_spec:
  "inSearch (toLowerCase (trim search)) v \<longleftrightarrow>
     (trim search = []
      \<or> ci_substring (trim search) (name v)
      \<or> (case code v of None \<Rightarrow> False | Some c \<Rightarrow> ci_substring (trim search) c)
      \<or> ci_substring (trim search) (category v))"
  by (simp add: inSearch_def ci_substring_def str_includes_sublist toLowerCase_Nil_iff
           split: option.splits)

text \<open>The filter and the search of the code are those of the reference pipeline, on every list.\<close>

lemma filter_stage:
  "filter (\<lambda>v. (if cat = ''All'' then True else category v = cat)
               \<and> inSearch (toLowerCase (trim search)) v) xs
   = spec_search search (spec_filter cat xs)"
  unfolding spec_search_def spec_filter_def filter_filter inSearch_spec
  by (rule filter_cong) auto

lemma spec_stage_set: "set (spec_search search (spec_filter cat xs)) \<subseteq> set xs"
  by (auto simp: spec_search_def spec_filter_def)

lemma filtered_created_desc:
  "filtered env list cat search created_desc = spec_project env list cat search created_desc"
  unfolding filtered_def spec_project_def spec_sort_def
  by (simp only: Let_def filter_stage SortKey.case simp_thms if_True)

lemma filtered_shop_example:
  "filtered (example_env 0 0) example_shop_list ''Shopping'' ''  AMA '' created_desc
     = [example_named ''1'' ''Amazon'' ''Shopping'' (Fin 500),
        example_named ''3'' ''amazon pay'' ''Shopping'' (Fin 1000),
        example_named ''4'' ''AMAZON Fresh'' ''Shopping'' (Fin 500)]"
  by (simp add: filtered_def inSearch_def toLowerCase_def lower_char_def
        example_shop_list_def example_named_def example_defs)

text \<open>
  The sort of the code is the stable sort by a key whenever the comparator is positive
  exactly on the pairs that the key orders the other way round.
\<close>

lemma insert_cmp_insort:
  assumes "\<And>y. y \<in> set ys \<Longrightarrow> js_gt (cmp x y) (Fin 0) \<longleftrightarrow> k y < k x"
  shows "insert_cmp cmp x ys = insort_key k x ys"
  using assms by (induction ys) (auto simp: not_le)

lemma Array_sort_sort_key:
  assumes "\<And>x y. x \<in> set xs \<Longrightarrow> y \<in> set xs \<Longrightarrow> js_gt (cmp x y) (Fin 0) \<longleftrightarrow> k y < k x"
  shows "Array_sort cmp xs = sort_key k xs"
  using assms
proof (induction xs)
  case Nil
  then show ?case by (simp add: Array_sort_def)
next
  case (Cons x xs)
  then have IH: "Array_sort cmp xs = sort_key k xs"
    by simp
  have "insert_cmp cmp x (sort_key k xs) = insort_key k x (sort_key k xs)"
    by (rule insert_cmp_insort) (simp add: Cons.prems)
  then show ?case
    using IH by (simp add: Array_sort_def)
qed

lemma rank_used_first_cmp:
  "js_gt (js_sub (rank_used_first s) (rank_used_first t)) (Fin 0)
   \<longleftrightarrow> spec_rank_used_first t < spec_rank_used_first s"
  by (cases s; cases t)
     (simp_all add: rank_used_first_def spec_rank_used_first_def fl64_integers)

lemma rank_unused_first_cmp:
  "js_gt (js_sub (rank_unused_first s) (rank_unused_first t)) (Fin 0)
   \<longleftrightarrow> spec_rank_unused_first t < spec_rank_unused_first s"
  by (cases s; cases t)
     (simp_all add: rank_unused_first_def spec_rank_unused_first_def fl64_integers)

text \<open>
  At or east of UTC, on vouchers whose expiry is a date without a time, the two status
  sorts are those of the reference pipeline.
\<close>

lemma filtered_status_east_of_UTC:
  assumes "east_of_UTC env" and "\<forall>v \<in> set list. date_only env v"
  shows "filtered env list cat search status_used_first
           = spec_project env list cat search status_used_first"
    and "filtered env list cat search status_unused_first
           = spec_project env list cat search status_unused_first"
proof -
  let ?arr = "spec_search search (spec_filter cat list)"
  have d: "deriveStatus env x = spec_derive env x" if "x \<in> set ?arr" for x
  proof -
    from that have "x \<in> set list"
      using spec_stage_set by blast
    then show ?thesis
      using assms by (simp add: deriveStatus_spec_derive)
  qed
  have u: "Array_sort (\<lambda>a b. js_sub (rank_used_first (deriveStatus env a))
                                  (rank_used_first (deriveStatus env b))) ?arr
           = sort_key (spec_key env status_used_first) ?arr"
    by (rule Array_sort_sort_key) (simp add: d rank_used_first_cmp spec_key_def)
  have n: "Array_sort (\<lambda>a b. js_sub (rank_unused_first (deriveStatus env a))
                                  (rank_unused_first (deriveStatus env b))) ?arr
           = sort_key (spec_key env status_unused_first) ?arr"
    by (rule Array_sort_sort_key) (simp add: d rank_unused_first_cmp spec_key_def)
  show "filtered env list cat search status_used_first
           = spec_project env list cat search status_used_first"
    unfolding filtered_def spec_project_def spec_sort_def
    by (simp only: Let_def filter_stage SortKey.case u SortKey.distinct if_False)
  show "filtered env list cat search status_unused_first
           = spec_project env list cat search status_unused_first"
    unfolding filtered_def spec_project_def spec_sort_def
    by (simp only: Let_def filter_stage SortKey.case n SortKey.distinct if_False)
qed

text \<open>
  C7. West of UTC the list sorted by \<open>status_unused_first\<close> is not the list of the
  reference pipeline. At UTC-5, at local noon of 2025-01-01, an unused voucher that
  expires on 2025-01-01 has the derived status \<open>unused\<close> and belongs before a used
  voucher; \<open>deriveStatus\<close> makes it \<open>expired\<close> and the code puts it after the used one.
  The filter and the search are those of the reference pipeline on every list
  (\<open>filter_stage\<close>, \<open>filtered_created_desc\<close>), and so are the two status sorts at or
  east of UTC (\<open>filtered_status_east_of_UTC\<close>).
\<close>

theorem filtered_status_west_of_UTC:
  "deriveStatus (example_env (- 18000000) 1735750800000) (example_expiring ''a'' (Some ''2025-01-01''))
     = expired
   \<and> spec_derive (example_env (- 18000000) 1735750800000) (example_expiring ''a'' (Some ''2025-01-01''))
     = unused
   \<and> filtered (example_env (- 18000000) 1735750800000) example_status_list ''All'' []
        status_unused_first
     = [(example_voucher (Fin 1000) (Fin 1000) used)\<lparr> id_v := ''b'' \<rparr>,
        example_expiring ''a'' (Some ''2025-01-01'')]
   \<and> spec_project (example_env (- 18000000) 1735750800000) example_status_list ''All'' []
        status_unused_first
     = [example_expiring ''a'' (Some ''2025-01-01''),
        (example_voucher (Fin 1000) (Fin 1000) used)\<lparr> id_v := ''b'' \<rparr>]"
  by (simp add: filtered_def inSearch_def toLowerCase_def Array_sort_def rank_unused_first_def
        deriveStatus_def setHours_23_59_59_999_def spec_project_def spec_sort_def
        spec_search_def spec_filter_def spec_key_def spec_rank_unused_first_def spec_derive_def
        expiry_day_def end_of_local_day_def msPerDay_def example_status_list_def
        example_expiring_def fl64_integers example_defs)

subsection \<open>Export followed by import\<close>

lemma zip_export_row:
  "zip export_columns
       (map (\<lambda>h. case map_of (export_row env v) h of None \<Rightarrow> CStr [] | Some x \<Rightarrow> x)
            export_columns) = export_row env v"
  by (simp add: export_row_def export_columns_def)

lemma header_keys: "map (header_key env) (header_cells export_columns) = export_columns"
  by (simp add: header_cells_def export_columns_def header_key_def)

lemma sheet_of_export:
  "list \<noteq> [] \<Longrightarrow> sheet_to_json env (exportExcel env list) = map (export_row env) list"
  by (simp add: exportExcel_nonempty sheet_to_json_def header_keys zip_export_row comp_def)

lemma import_export_row:
  assumes "importable env v"
  shows "import_row env uid (export_row env v) =
           \<lparr> user_id = Some uid, name = name v, value = value v, spent = spent v,
             category = category v, code = (case code v of None \<Rightarrow> None | Some c \<Rightarrow> or_null c),
             pin = (case pin v of None \<Rightarrow> None | Some c \<Rightarrow> or_null c),
             expires_on = (case expires_on v of None \<Rightarrow> None | Some c \<Rightarrow> or_null c),
             status = (if js_ge (spent v) (value v) then used else unused) \<rparr>"
proof -
  from assms obtain a b where ab: "value v = Fin a" "spent v = Fin b" "0 < a" "0 \<le> b" "b \<le> a"
    by (cases "value v"; cases "spent v") (auto simp: importable_def ledger_inv_def js_defs)
  have rt: "Number env (strip0 (String_of_number env (Fin a))) = Fin a"
       "Number env (strip0 (String_of_number env (Fin b))) = Fin b"
    using assms ab by (simp_all add: importable_def num_round_trip_def)
  have rt0: "b = 0 \<Longrightarrow> Number env (strip0 (String_of_number env (Fin 0))) = Fin 0"
    using rt by simp
  have nm: "name v \<noteq> []" "trim (name v) = name v" "category v \<noteq> []"
    using assms by (simp_all add: importable_def)
  show ?thesis
    using ab rt rt0 nm
    by (auto simp: import_row_def export_row_def toNum_def Let_def or_null_def
             split: option.splits)
qed

lemma import_export_kept:
  assumes "importable env v"
  shows "name (import_row env uid (export_row env v)) \<noteq> []
         \<and> js_gt (value (import_row env uid (export_row env v))) (Fin 0)"
  using assms by (simp add: import_export_row) (simp add: importable_def)

lemma import_payload_export:
  assumes "\<forall>v \<in> set list. importable env v"
  shows "import_payload env uid (map (export_row env) list)
         = map (\<lambda>v. import_row env uid (export_row env v)) list"
  using assms by (simp add: import_payload_def filter_map comp_def import_export_kept)

text \<open>
  C8, as the code has it. For a list that is not empty, of vouchers with a finite value
  above 0, \<open>0 \<le> spent \<le> value\<close>, a name that is not empty and has no white space
  around it, and a category that is not empty: importing the exported sheet inserts one
  row per voucher, with the same \<open>(name, value, spent, category)\<close> in the same order,
  hence the same multiset, and each status is computed from \<open>spent\<close> and \<open>value\<close>.
\<close>

theorem export_import_round_trip:
  assumes "list \<noteq> []" and "\<forall>v \<in> set list. importable env v"
  shows "importExcel env (Some uid) (sheet_to_json env (exportExcel env list))
           = Issued (map (\<lambda>v. import_row env uid (export_row env v)) list)
       \<and> map tuple_of (written_rows
             (importExcel env (Some uid) (sheet_to_json env (exportExcel env list))))
           = map tuple_of list
       \<and> mset (map tuple_of (written_rows
             (importExcel env (Some uid) (sheet_to_json env (exportExcel env list)))))
           = mset (map tuple_of list)
       \<and> (\<forall>r \<in> set (written_rows
             (importExcel env (Some uid) (sheet_to_json env (exportExcel env list)))).
             status r = (if js_ge (spent r) (value r) then used else unused))"
proof -
  have out: "importExcel env (Some uid) (sheet_to_json env (exportExcel env list))
           = Issued (map (\<lambda>v. import_row env uid (export_row env v)) list)"
    using assms by (simp add: importExcel_def Let_def sheet_of_export import_payload_export)
  have tup: "map tuple_of (map (\<lambda>v. import_row env uid (export_row env v)) list)
             = map tuple_of list"
    using assms(2) by (simp add: import_export_row tuple_of_def)
  have st: "\<forall>r \<in> set (map (\<lambda>v. import_row env uid (export_row env v)) list).
             status r = (if js_ge (spent r) (value r) then used else unused)"
    by (simp add: import_row_status)
  have written: "written_rows
             (importExcel env (Some uid) (sheet_to_json env (exportExcel env list)))
           = map (\<lambda>v. import_row env uid (export_row env v)) list"
    by (simp add: out written_rows_def)
  have tup_mset: "mset (map tuple_of (map (\<lambda>v. import_row env uid (export_row env v)) list))
             = mset (map tuple_of list)"
    by (simp only: tup)
  show ?thesis
    unfolding written using out tup tup_mset st by blast
qed

theorem export_import_round_trip_witness:
  "[example_voucher (Fin 1000) (Fin 200) used] \<noteq> []
   \<and> importable (example_env 0 0) (example_voucher (Fin 1000) (Fin 200) used)
   \<and> importExcel (example_env 0 0) (Some ''u1'')
        (sheet_to_json (example_env 0 0)
           (exportExcel (example_env 0 0) [example_voucher (Fin 1000) (Fin 200) used]))
       = Issued [(example_row ''Amazon'' (Fin 1000) (Fin 200) unused)\<lparr> category := ''Shopping'' \<rparr>]"
proof -
  have imp: "\<forall>v \<in> set [example_voucher (Fin 1000) (Fin 200) used]. importable (example_env 0 0) v"
    by (simp add: importable_def num_round_trip_def ledger_inv_def example_defs)
  have ne: "[example_voucher (Fin 1000) (Fin 200) used] \<noteq> []"
    by simp
  show ?thesis
    using imp export_import_round_trip [OF ne imp, of "''u1''"]
    by (simp add: import_row_def export_row_def toNum_def Let_def status_str_def
          deriveStatus_def example_defs)
qed

text \<open>
  A voucher with value 0 satisfies \<open>0 \<le> spent \<le> value\<close> and is dropped by the import:
  of the two vouchers exported, one comes back.
\<close>

theorem export_import_counterexample:
  "ledger_inv (value example_zero) (spent example_zero)
   \<and> ledger_inv (value (example_voucher (Fin 1000) (Fin 200) unused))
                  (spent (example_voucher (Fin 1000) (Fin 200) unused))
   \<and> map tuple_of (written_rows (importExcel (example_env 0 0) (Some ''u1'')
         (sheet_to_json (example_env 0 0)
            (exportExcel (example_env 0 0)
               [example_zero, example_voucher (Fin 1000) (Fin 200) unused]))))
       = [(''Amazon'', Fin 1000, Fin 200, ''Shopping'')]
   \<and> mset [(''Amazon'', Fin 1000, Fin 200, ''Shopping'')]
       \<noteq> mset (map tuple_of [example_zero, example_voucher (Fin 1000) (Fin 200) unused])"
  by (simp add: ledger_inv_def example_zero_def sheet_to_json_def exportExcel_def
        export_headers_def export_row_def header_key_def importExcel_def import_payload_def
        import_row_def toNum_def Let_def tuple_of_def written_rows_def status_str_def
        deriveStatus_def example_defs)

end
